theory Spec2Isabelle
  imports Complex_Main "HOL-Library.Word"
begin

unbundle bit_operations_syntax

section \<open>Numbers, the clock and the data model\<close>

text \<open>
  The source is TypeScript. Its numbers are IEEE doubles; they are modelled by \<^typ>\<open>real\<close>
  (timestamps and the PRNG seed, which only ever hold integers, by \<^typ>\<open>int\<close>), so
  rounding is not modelled. The one place where finite inputs make the code compute a NaN
  (the falloff \<open>distance / sensor.range\<close> of a sensor of range 0) is a branch of the
  model, and so is every comparison with the \<open>undefined\<close> of a missing rule parameter.

  \<open>Date.now()\<close> is read from a clock: the \<open>k\<close>-th reading of a run is \<open>clk k\<close>, and
  the number of readings taken so far is threaded through the functions that read it.
\<close>

type_synonym pos = "real \<times> real"

type_synonym clock = "nat \<Rightarrow> int"

definition Date_now :: "clock \<Rightarrow> nat \<Rightarrow> int \<times> nat" where
  "Date_now clk k = (clk k, Suc k)"

subsection \<open>src/features/adversarial_simulator/types.ts\<close>

datatype Weather = clear | fog

datatype ActorType = adversary | civilian

datatype SensorType = camera | acoustic

datatype GpsMode = gps_on | gps_off

record Sensor =
  sensor_id :: string
  sensor_type :: SensorType
  sensor_pos :: pos
  sensor_range :: real
  base_p :: real
  weather_penalty :: "Weather \<Rightarrow> real option"

record Actor =
  actor_id :: string
  actor_type :: ActorType
  actor_pos :: pos
  path :: "pos list"
  pathIndex :: nat
  speed :: real
  gpsMode :: GpsMode

record SensorEvent =
  timestamp :: int
  sensorId :: string
  actorId :: string
  confidence :: real
  actorPos :: pos

datatype Level = info | warning | critical

record Alert =
  alert_id :: string
  alert_timestamp :: int
  message :: string
  level :: Level
  relatedEvents :: "SensorEvent list"

text \<open>
  A rule's \<open>type\<close> is the string the rule carries at run time (rules also arrive as JSON
  from the patch generator), and \<open>params\<close> is the loosely typed bag of the source: a
  missing key reads as \<open>undefined\<close>, here \<open>None\<close>.
\<close>

record DetectionRule =
  rule_id :: string
  rule_type :: string
  params :: "string \<Rightarrow> real option"

section \<open>src/utils/prng.ts\<close>

text \<open>
  \<open>this.seed += 0x6D2B79F5\<close> is a plain number addition (the seed is never truncated);
  the bit operations and \<open>Math.imul\<close> work on its value modulo \<open>2 ^ 32\<close>.
\<close>

definition PRNG_next :: "int \<Rightarrow> real \<times> int" where
  "PRNG_next seed =
     (let seed' = seed + 0x6D2B79F5;
          t0 = (word_of_int seed' :: 32 word);
          t1 = (t0 XOR drop_bit 15 t0) * (t0 OR 1);
          t2 = t1 XOR (t1 + (t1 XOR drop_bit 7 t1) * (t1 OR 61))
      in (real (unat (t2 XOR drop_bit 14 t2)) / 4294967296, seed'))"

definition PRNG_random :: "int \<Rightarrow> real \<times> int" where
  "PRNG_random seed = PRNG_next seed"

section \<open>detectionLogic.ts: the sensor detection model\<close>

text \<open>\<open>Math.atan2 y x\<close> on the reals.\<close>

definition atan2 :: "real \<Rightarrow> real \<Rightarrow> real" where
  "atan2 y x =
     (if 0 < x then arctan (y / x)
      else if x < 0 then (if 0 \<le> y then arctan (y / x) + pi else arctan (y / x) - pi)
      else if 0 < y then pi / 2
      else if y < 0 then - (pi / 2)
      else 0)"

definition getDistance :: "pos \<Rightarrow> pos \<Rightarrow> real" where
  "getDistance pos1 pos2 =
     (let R = 6371000;
          phi1 = fst pos1 * pi / 180;
          phi2 = fst pos2 * pi / 180;
          dphi = (fst pos2 - fst pos1) * pi / 180;
          dlambda = (snd pos2 - snd pos1) * pi / 180;
          a = sin (dphi / 2) * sin (dphi / 2) +
              cos phi1 * cos phi2 * sin (dlambda / 2) * sin (dlambda / 2);
          c = 2 * atan2 (sqrt a) (sqrt (1 - a))
      in R * c)"

text \<open>
  Lines 298 to 302 of \<open>generateSensorEvent\<close>: the probability of a detection at a
  distance within the range. \<open>if (penalty)\<close> tests the truthiness of the entry, so an
  entry that is missing or 0 leaves the probability as it is. The result \<open>None\<close> is
  NaN: with a range of 0 the distance is 0 as well, and \<open>0 / 0\<close> is NaN.
\<close>

definition detectionProb :: "Actor \<Rightarrow> Sensor \<Rightarrow> Weather \<Rightarrow> real \<Rightarrow> real option" where
  "detectionProb actor sensor weather distance =
     (let p0 = base_p sensor;
          p1 = (case weather_penalty sensor weather of
                  None \<Rightarrow> p0
                | Some penalty \<Rightarrow> if penalty \<noteq> 0 then p0 * penalty else p0)
      in if sensor_range sensor = 0 then None
         else
           (let p2 = p1 * (1 - distance / sensor_range sensor);
                p3 = (if actor_type actor = adversary then p2 * 0.8 else p2)
            in Some p3))"

text \<open>
  The state threaded through a detection is the PRNG seed and the number of clock
  readings taken. A draw is consumed only within the range; a comparison with NaN is
  false.
\<close>

definition generateSensorEvent ::
  "clock \<Rightarrow> Actor \<Rightarrow> Sensor \<Rightarrow> Weather \<Rightarrow> int \<times> nat \<Rightarrow> SensorEvent option \<times> (int \<times> nat)" where
  "generateSensorEvent clk actor sensor weather st =
     (let distance = getDistance (actor_pos actor) (sensor_pos sensor)
      in if distance \<le> sensor_range sensor then
           (let (r, prng') = PRNG_random (fst st)
            in case detectionProb actor sensor weather distance of
                 None \<Rightarrow> (None, (prng', snd st))
               | Some prob \<Rightarrow>
                   if r < prob then
                     (let (now, k') = Date_now clk (snd st)
                      in (Some \<lparr>timestamp = now, sensorId = sensor_id sensor,
                                 actorId = actor_id actor, confidence = prob,
                                 actorPos = actor_pos actor\<rparr>,
                          (prng', k')))
                   else (None, (prng', snd st)))
         else (None, st))"

section \<open>detectionLogic.ts: the rule engine\<close>

datatype error = TypeError

text \<open>
  \<open>DetectionState\<close> is an object indexed by strings whose values the engine writes
  itself: arrays of events, and the number of a cooldown (NaN when the rule has no
  \<open>time_window_s\<close>). A rule of one type can find under its key what a rule of another
  type stored there (two rules with one id, or an id that ends in \<open>-cooldown\<close>), so the
  three kinds of value share one store. The properties an object inherits from
  \<open>Object.prototype\<close> are not modelled.
\<close>

datatype JSValue = Events "SensorEvent list" | Num real | NaN

type_synonym DetectionState = "string \<Rightarrow> JSValue option"

text \<open>The decimal digits of a number in a template literal, as in \<open>`alert-hc-${now}`\<close>.\<close>

definition digit_char :: "nat \<Rightarrow> char" where
  "digit_char d = ''0123456789'' ! d"

function show_nat :: "nat \<Rightarrow> string" where
  "show_nat n = (if n < 10 then [digit_char n] else show_nat (n div 10) @ [digit_char (n mod 10)])"
  by pat_completeness auto
termination
  by (relation "measure id") auto

declare show_nat.simps [simp del]

definition show_int :: "int \<Rightarrow> string" where
  "show_int i = (if i < 0 then CHR ''-'' # show_nat (nat (- i)) else show_nat (nat i))"

text \<open>
  \<open>(nextState[stateKey] || [])\<close> followed by \<open>.filter\<close> or \<open>.concat\<close>: a missing or
  falsy entry gives the empty array, an array is itself, and a nonzero number has neither
  method, which raises a TypeError.
\<close>

definition stored_list :: "JSValue option \<Rightarrow> error + SensorEvent list" where
  "stored_list v =
     (case v of
        None \<Rightarrow> Inr []
      | Some (Events xs) \<Rightarrow> Inr xs
      | Some (Num x) \<Rightarrow> if x = 0 then Inr [] else Inl TypeError
      | Some NaN \<Rightarrow> Inr [])"

text \<open>\<open>now - e.timestamp < rule.params.time_window_s * 1000\<close>; false when the parameter is missing.\<close>

definition within_window :: "int \<Rightarrow> real option \<Rightarrow> SensorEvent \<Rightarrow> bool" where
  "within_window now w e =
     (case w of None \<Rightarrow> False | Some s \<Rightarrow> real_of_int (now - timestamp e) < s * 1000)"

text \<open>\<open>e.actorId === adversary?.id\<close>; false for every event when there is no adversary.\<close>

definition is_adversary_event :: "Actor option \<Rightarrow> SensorEvent \<Rightarrow> bool" where
  "is_adversary_event adv e = (map_option actor_id adv = Some (actorId e))"

text \<open>\<open>n >= rule.params.key\<close> for a length or a size \<open>n\<close>; false when the parameter is missing.\<close>

definition reaches :: "nat \<Rightarrow> real option \<Rightarrow> bool" where
  "reaches n m = (case m of None \<Rightarrow> False | Some x \<Rightarrow> x \<le> real n)"

definition high_confidence_sighting ::
  "int \<Rightarrow> Actor option \<Rightarrow> SensorEvent list \<Rightarrow> DetectionRule \<Rightarrow> Alert list \<Rightarrow> Alert list" where
  "high_confidence_sighting now adv events rule alerts =
     (case find (\<lambda>e. is_adversary_event adv e \<and>
                      (case params rule ''min_confidence'' of
                         None \<Rightarrow> False | Some m \<Rightarrow> m < confidence e)) events of
        None \<Rightarrow> alerts
      | Some adversaryEvent \<Rightarrow>
          alerts @ [\<lparr>alert_id = ''alert-hc-'' @ show_int now, alert_timestamp = now,
                      message = ''High confidence sighting of adversary by '' @
                                sensorId adversaryEvent @ ''.'',
                      level = critical, relatedEvents = [adversaryEvent]\<rparr>])"

definition persistent_sighting ::
  "int \<Rightarrow> Actor option \<Rightarrow> SensorEvent list \<Rightarrow> DetectionRule \<Rightarrow>
   Alert list \<times> DetectionState \<Rightarrow> error + Alert list \<times> DetectionState" where
  "persistent_sighting now adv events rule acc =
     (let stateKey = rule_id rule
      in case stored_list (snd acc stateKey) of
           Inl e \<Rightarrow> Inl e
         | Inr old \<Rightarrow>
             (let history = filter (within_window now (params rule ''time_window_s'')) old @
                            filter (is_adversary_event adv) events
              in if reaches (length history) (params rule ''min_detections'')
                 then Inr (fst acc @
                            [\<lparr>alert_id = ''alert-ps-'' @ show_int now, alert_timestamp = now,
                              message = ''Persistent presence of adversary detected.'',
                              level = critical, relatedEvents = history\<rparr>],
                           (snd acc)(stateKey \<mapsto> Events []))
                 else Inr (fst acc, (snd acc)(stateKey \<mapsto> Events history))))"

text \<open>
  The set \<open>nearbyActorIds\<close> of one adversary event, in insertion order:
  \<open>getDistance(...) < rule.params.radius_m\<close> is false when the parameter is missing.
\<close>

definition nearbyActorIds :: "real option \<Rightarrow> SensorEvent \<Rightarrow> SensorEvent list \<Rightarrow> string list" where
  "nearbyActorIds radius advEvent history =
     fold (\<lambda>histEvent ids.
             if (case radius of
                   None \<Rightarrow> False
                 | Some r \<Rightarrow> getDistance (actorPos advEvent) (actorPos histEvent) < r)
             then (if actorId histEvent \<in> set ids then ids else ids @ [actorId histEvent])
             else ids)
          history [actorId advEvent]"

text \<open>
  \<open>!nextState[cooldownKey] || now > nextState[cooldownKey]\<close>. An array is truthy, and
  compared with a number it converts to 0 when empty and to NaN otherwise.
\<close>

definition cooldown_over :: "int \<Rightarrow> JSValue option \<Rightarrow> bool" where
  "cooldown_over now v =
     (case v of
        None \<Rightarrow> True
      | Some (Num c) \<Rightarrow> c = 0 \<or> c < real_of_int now
      | Some NaN \<Rightarrow> True
      | Some (Events xs) \<Rightarrow> xs = [] \<and> 0 < now)"

text \<open>The body of the loop over \<open>adversaryEventsThisTick\<close>.\<close>

definition group_event_step ::
  "int \<Rightarrow> DetectionRule \<Rightarrow> SensorEvent list \<Rightarrow> SensorEvent \<Rightarrow>
   Alert list \<times> DetectionState \<Rightarrow> Alert list \<times> DetectionState" where
  "group_event_step now rule history advEvent acc =
     (let nearby = nearbyActorIds (params rule ''radius_m'') advEvent history;
          cooldownKey = rule_id rule @ ''-cooldown''
      in if reaches (length nearby) (params rule ''min_actors'') \<and>
            cooldown_over now (snd acc cooldownKey)
         then (fst acc @
                [\<lparr>alert_id = ''alert-gs-'' @ show_int now, alert_timestamp = now,
                  message = ''Suspicious group of '' @ show_nat (length nearby) @
                            '' actors detected near adversary.'',
                  level = critical, relatedEvents = []\<rparr>],
               (snd acc)(cooldownKey \<mapsto>
                  (case params rule ''time_window_s'' of
                     None \<Rightarrow> NaN
                   | Some w \<Rightarrow> Num (real_of_int now + w * 1000))))
         else acc)"

definition group_sighting ::
  "int \<Rightarrow> Actor option \<Rightarrow> SensorEvent list \<Rightarrow> DetectionRule \<Rightarrow>
   Alert list \<times> DetectionState \<Rightarrow> error + Alert list \<times> DetectionState" where
  "group_sighting now adv events rule acc =
     (let stateKey = rule_id rule
      in case stored_list (snd acc stateKey) of
           Inl e \<Rightarrow> Inl e
         | Inr old \<Rightarrow>
             (let history = filter (within_window now (params rule ''time_window_s''))
                              (old @ events);
                  acc1 = (fst acc, (snd acc)(stateKey \<mapsto> Events history));
                  adversaryEventsThisTick = filter (is_adversary_event adv) events
              in Inr (fold (group_event_step now rule history) adversaryEventsThisTick acc1)))"

text \<open>The \<open>switch\<close> of the callback of \<open>rules.forEach\<close>; it has no default case.\<close>

definition evaluate_rule ::
  "int \<Rightarrow> Actor option \<Rightarrow> SensorEvent list \<Rightarrow> DetectionRule \<Rightarrow>
   Alert list \<times> DetectionState \<Rightarrow> error + Alert list \<times> DetectionState" where
  "evaluate_rule now adv events rule acc =
     (if rule_type rule = ''high_confidence_sighting''
      then Inr (high_confidence_sighting now adv events rule (fst acc), snd acc)
      else if rule_type rule = ''persistent_sighting''
      then persistent_sighting now adv events rule acc
      else if rule_type rule = ''group_sighting''
      then group_sighting now adv events rule acc
      else Inr acc)"

fun rules_forEach ::
  "int \<Rightarrow> Actor option \<Rightarrow> SensorEvent list \<Rightarrow> DetectionRule list \<Rightarrow>
   Alert list \<times> DetectionState \<Rightarrow> error + Alert list \<times> DetectionState" where
  "rules_forEach now adv events [] acc = Inr acc"
| "rules_forEach now adv events (rule # rules) acc =
     (case evaluate_rule now adv events rule acc of
        Inl e \<Rightarrow> Inl e
      | Inr acc' \<Rightarrow> rules_forEach now adv events rules acc')"

text \<open>The two nested loops that generate the events of a tick.\<close>

fun sensors_loop ::
  "clock \<Rightarrow> Actor \<Rightarrow> Weather \<Rightarrow> Sensor list \<Rightarrow> SensorEvent list \<times> (int \<times> nat) \<Rightarrow>
   SensorEvent list \<times> (int \<times> nat)" where
  "sensors_loop clk actor weather [] acc = acc"
| "sensors_loop clk actor weather (sensor # sensors) acc =
     (case generateSensorEvent clk actor sensor weather (snd acc) of
        (None, st') \<Rightarrow> sensors_loop clk actor weather sensors (fst acc, st')
      | (Some event, st') \<Rightarrow> sensors_loop clk actor weather sensors (fst acc @ [event], st'))"

fun actors_loop ::
  "clock \<Rightarrow> Weather \<Rightarrow> Sensor list \<Rightarrow> Actor list \<Rightarrow> SensorEvent list \<times> (int \<times> nat) \<Rightarrow>
   SensorEvent list \<times> (int \<times> nat)" where
  "actors_loop clk weather sensors [] acc = acc"
| "actors_loop clk weather sensors (actor # actors) acc =
     actors_loop clk weather sensors actors (sensors_loop clk actor weather sensors acc)"

record DetectionResult =
  newAlerts :: "Alert list"
  newEvents :: "SensorEvent list"
  updatedState :: DetectionState

text \<open>
  The result is the returned object or the exception thrown, together with the PRNG seed
  and the number of clock readings after the call.
\<close>

definition runDetectionLogic ::
  "clock \<Rightarrow> Actor list \<Rightarrow> Sensor list \<Rightarrow> Weather \<Rightarrow> DetectionRule list \<Rightarrow> DetectionState \<Rightarrow>
   int \<times> nat \<Rightarrow> (error + DetectionResult) \<times> (int \<times> nat)" where
  "runDetectionLogic clk actors sensors weather rules currentState st =
     (let (events, st1) = actors_loop clk weather sensors actors ([], st)
      in if events = []
         then (Inr \<lparr>newAlerts = [], newEvents = [], updatedState = currentState\<rparr>, st1)
         else
           (let (now, k') = Date_now clk (snd st1);
                adv = find (\<lambda>a. actor_type a = adversary) actors
            in case rules_forEach now adv events rules ([], currentState) of
                 Inl e \<Rightarrow> (Inl e, (fst st1, k'))
               | Inr (alerts, nextState) \<Rightarrow>
                   (Inr \<lparr>newAlerts = alerts, newEvents = events, updatedState = nextState\<rparr>,
                    (fst st1, k'))))"

section \<open>mapData.ts\<close>

text \<open>The keys of \<open>POINTS_OF_INTEREST\<close>, in the order \<open>Object.keys\<close> lists them.\<close>

definition POINTS_OF_INTEREST :: "(string \<times> pos) list" where
  "POINTS_OF_INTEREST =
     [(''Parking'', (34.021, 75.320)),
      (''Meadow'', (34.029, 75.310)),
      (''PatrolPost'', (34.024, 75.316)),
      (''Viewpoint'', (34.0285, 75.319)),
      (''Bridge'', (34.022, 75.313)),
      (''Cafe'', (34.027, 75.309))]"

definition SCENARIO_1_SENSORS :: "Sensor list" where
  "SCENARIO_1_SENSORS =
     [\<lparr>sensor_id = ''S01'', sensor_type = camera, sensor_pos = (34.026, 75.318),
       sensor_range = 150, base_p = 0.8, weather_penalty = [fog \<mapsto> 0.4]\<rparr>,
      \<lparr>sensor_id = ''S02'', sensor_type = camera, sensor_pos = (34.023, 75.310),
       sensor_range = 120, base_p = 0.75, weather_penalty = [fog \<mapsto> 0.3]\<rparr>,
      \<lparr>sensor_id = ''S03'', sensor_type = acoustic, sensor_pos = (34.028, 75.312),
       sensor_range = 180, base_p = 0.6, weather_penalty = [fog \<mapsto> 0.9]\<rparr>]"

definition SCENARIO_1_RULES :: "DetectionRule list" where
  "SCENARIO_1_RULES =
     [\<lparr>rule_id = ''high_confidence_sighting_v1'', rule_type = ''high_confidence_sighting'',
       params = [''min_confidence'' \<mapsto> 0.85]\<rparr>,
      \<lparr>rule_id = ''persistent_sighting_v1'', rule_type = ''persistent_sighting'',
       params = [''time_window_s'' \<mapsto> 10, ''min_detections'' \<mapsto> 3]\<rparr>]"

section \<open>geminiService.ts: the path of the adversary\<close>

text \<open>
  What \<open>generateAdversarialScenario\<close> does to the path the model returned (an empty list
  stands for a missing or empty path, and for a failed call): the first and the last
  waypoint are overwritten, and an empty path is replaced by the direct one.
\<close>

definition scenario_path :: "pos \<Rightarrow> pos \<Rightarrow> pos list \<Rightarrow> pos list" where
  "scenario_path start_pos end_pos raw =
     (if raw \<noteq> [] then (raw[0 := start_pos])[length raw - 1 := end_pos]
      else [start_pos, end_pos])"

section \<open>AdversarialSimulator.tsx: the orchestrator\<close>

text \<open>
  \<open>poiNames[Math.floor(prng.random() * poiNames.length)]\<close>; \<open>None\<close> is the
  \<open>undefined\<close> of an index outside the array.
\<close>

definition getRandomPoiName :: "int \<Rightarrow> string list \<Rightarrow> string option \<times> int" where
  "getRandomPoiName prng exclude =
     (let poiNames = filter (\<lambda>name. name \<notin> set exclude) (map fst POINTS_OF_INTEREST);
          (r, prng') = PRNG_random prng;
          i = nat \<lfloor>r * real (length poiNames)\<rfloor>
      in (if i < length poiNames then Some (poiNames ! i) else None, prng'))"

text \<open>\<open>POINTS_OF_INTEREST[name].pos\<close>, a TypeError when the name is no key.\<close>

definition poi_pos :: "string option \<Rightarrow> error + pos" where
  "poi_pos name =
     (case name of
        None \<Rightarrow> Inl TypeError
      | Some n \<Rightarrow> (case map_of POINTS_OF_INTEREST n of None \<Rightarrow> Inl TypeError | Some p \<Rightarrow> Inr p))"

text \<open>
  The callback of \<open>currentActors.map\<close> (lines 67 to 77): the advanced actor or the
  exception, and the PRNG seed after it.
\<close>

definition advance_actor :: "Actor \<Rightarrow> int \<Rightarrow> (error + Actor) \<times> int" where
  "advance_actor actor prng =
     (if int (length (path actor)) - 1 \<le> int (pathIndex actor) then
        (if actor_type actor = civilian then
           (let (name, prng') = getRandomPoiName prng []
            in case poi_pos name of
                 Inl e \<Rightarrow> (Inl e, prng')
               | Inr p \<Rightarrow> (Inr (actor\<lparr>path := [actor_pos actor, p], pathIndex := 0\<rparr>), prng'))
         else (Inr actor, prng))
      else
        (let newPathIndex = pathIndex actor + 1
         in (Inr (actor\<lparr>pathIndex := newPathIndex, actor_pos := path actor ! newPathIndex\<rparr>),
             prng)))"

fun advance_all :: "Actor list \<Rightarrow> int \<Rightarrow> (error + Actor list) \<times> int" where
  "advance_all [] prng = (Inr [], prng)"
| "advance_all (actor # actors) prng =
     (case advance_actor actor prng of
        (Inl e, prng') \<Rightarrow> (Inl e, prng')
      | (Inr actor', prng') \<Rightarrow>
          (case advance_all actors prng' of
             (Inl e, prng'') \<Rightarrow> (Inl e, prng'')
           | (Inr actors', prng'') \<Rightarrow> (Inr (actor' # actors'), prng'')))"

text \<open>
  The variables the interval callback of \<open>runSimulationPromise\<close> closes over, with the
  PRNG and the clock. The React state it also sets (\<open>setActors\<close>, \<open>setEvents\<close>, the
  action log) is display only and is left out.
\<close>

record SimState =
  currentActors :: "Actor list"
  detectionState :: DetectionState
  prng :: int
  clock_reads :: nat

datatype Verdict = DETECTED | BYPASSED

text \<open>\<open>!adversary || adversary.pathIndex >= adversary.path.length - 1\<close>\<close>

definition path_exhausted :: "Actor option \<Rightarrow> bool" where
  "path_exhausted adv =
     (case adv of None \<Rightarrow> True | Some a \<Rightarrow> int (length (path a)) - 1 \<le> int (pathIndex a))"

text \<open>
  One run of the interval callback: the verdict the promise is resolved with, or the
  state the next run of the callback starts from. A callback that throws leaves the
  interval running, with the assignments made before the exception.
\<close>

definition tick :: "clock \<Rightarrow> Sensor list \<Rightarrow> DetectionRule list \<Rightarrow> SimState \<Rightarrow> Verdict + SimState" where
  "tick clk sensors rules s =
     (case advance_all (currentActors s) (prng s) of
        (Inl e, prng') \<Rightarrow> Inr (s\<lparr>prng := prng'\<rparr>)
      | (Inr actors', prng') \<Rightarrow>
          if path_exhausted (find (\<lambda>a. actor_type a = adversary) actors') then Inl BYPASSED
          else
            (case runDetectionLogic clk actors' sensors clear rules (detectionState s)
                    (prng', clock_reads s) of
               (Inl e, st') \<Rightarrow>
                 Inr \<lparr>currentActors = actors', detectionState = detectionState s,
                      prng = fst st', clock_reads = snd st'\<rparr>
             | (Inr res, st') \<Rightarrow>
                 if newAlerts res \<noteq> [] \<and> list_ex (\<lambda>a. level a = critical) (newAlerts res)
                 then Inl DETECTED
                 else Inr \<lparr>currentActors = actors', detectionState = updatedState res,
                           prng = fst st', clock_reads = snd st'\<rparr>))"

text \<open>The number of waypoints the first adversary still has ahead.\<close>

definition waypoints_left :: "SimState \<Rightarrow> nat" where
  "waypoints_left s =
     (case find (\<lambda>a. actor_type a = adversary) (currentActors s) of
        None \<Rightarrow> 0
      | Some a \<Rightarrow> length (path a) - 1 - pathIndex a)"

text \<open>
  The interval of \<open>runSimulationPromise\<close>, with the number of times the callback may
  run: the verdict the promise resolves with, or \<open>None\<close> when it is still pending
  after that many runs.
\<close>

fun runSimulationPromise :: "clock \<Rightarrow> Sensor list \<Rightarrow> DetectionRule list \<Rightarrow> nat \<Rightarrow> SimState \<Rightarrow> Verdict option" where
  "runSimulationPromise clk sensors rules 0 s = None"
| "runSimulationPromise clk sensors rules (Suc n) s =
     (case tick clk sensors rules s of
        Inl verdict \<Rightarrow> Some verdict
      | Inr s' \<Rightarrow> runSimulationPromise clk sensors rules n s')"

text \<open>Actor creation in \<open>handleStartScenario\<close> (lines 116 to 135).\<close>

definition make_civilian :: "nat \<Rightarrow> int \<Rightarrow> (error + Actor) \<times> int" where
  "make_civilian i prng0 =
     (let (startPoi, prng1) = getRandomPoiName prng0 [];
          (endPoi, prng2) = getRandomPoiName prng1 (case startPoi of None \<Rightarrow> [] | Some n \<Rightarrow> [n])
      in case poi_pos startPoi of
           Inl e \<Rightarrow> (Inl e, prng2)
         | Inr p_start \<Rightarrow>
             (case poi_pos endPoi of
                Inl e \<Rightarrow> (Inl e, prng2)
              | Inr p_end \<Rightarrow>
                  (Inr \<lparr>actor_id = ''civ-'' @ show_nat i, actor_type = civilian,
                        actor_pos = p_start, path = [p_start, p_end], pathIndex = 0,
                        speed = 10, gpsMode = gps_on\<rparr>,
                   prng2)))"

text \<open>
  The adversary is built from the path \<open>generateAdversarialScenario\<close> returns for the
  route from Parking to Meadow; \<open>raw\<close> is the path the model proposed.
\<close>

definition make_adversary :: "pos list \<Rightarrow> GpsMode \<Rightarrow> Actor" where
  "make_adversary raw mode =
     (let scenario = scenario_path (34.021, 75.320) (34.029, 75.310) raw
      in \<lparr>actor_id = ''adv-1'', actor_type = adversary, actor_pos = scenario ! 0,
          path = scenario, pathIndex = 0, speed = 20, gpsMode = mode\<rparr>)"

text \<open>The invariant of the data model: the index is valid and the position is its waypoint.\<close>

definition on_path :: "Actor \<Rightarrow> bool" where
  "on_path a = (pathIndex a < length (path a) \<and> actor_pos a = path a ! pathIndex a)"

section \<open>The sensor detection model: properties\<close>

text \<open>
  The distance is never negative: the haversine term lies between 0 and 1 for all
  coordinates, so both square roots are taken of numbers that are not negative. Within
  the range of a sensor of range 0 the distance is therefore 0, the falloff is \<open>0 / 0\<close>
  and no event is returned.
\<close>

lemma haversine_range:
  fixes phi1 phi2 dlambda :: real
  defines "a \<equiv> sin ((phi2 - phi1) / 2) * sin ((phi2 - phi1) / 2) +
                 cos phi1 * cos phi2 * sin (dlambda / 2) * sin (dlambda / 2)"
  shows "0 \<le> a \<and> a \<le> 1"
proof -
  define k where "k = sin (dlambda / 2) * sin (dlambda / 2)"
  define C where "C = cos (phi2 - phi1)"
  define D where "D = cos (phi1 + phi2)"
  have k: "0 \<le> k" "k \<le> 1"
  proof -
    show "0 \<le> k" by (simp add: k_def)
    have "sin (dlambda / 2) * sin (dlambda / 2) + cos (dlambda / 2) * cos (dlambda / 2) = 1"
      using sin_cos_squared_add [of "dlambda / 2"] by (simp add: power2_eq_square)
    moreover have "0 \<le> cos (dlambda / 2) * cos (dlambda / 2)" by simp
    ultimately show "k \<le> 1" unfolding k_def by linarith
  qed
  have C: "- 1 \<le> C" "C \<le> 1" by (simp_all add: C_def)
  have D: "- 1 \<le> D" "D \<le> 1" by (simp_all add: D_def)
  have half: "sin ((phi2 - phi1) / 2) * sin ((phi2 - phi1) / 2) = (1 - C) / 2"
  proof -
    have "phi2 - phi1 = 2 * ((phi2 - phi1) / 2)"
      by simp
    then have "C = cos (2 * ((phi2 - phi1) / 2))"
      unfolding C_def by (rule arg_cong)
    also have "\<dots> = 1 - 2 * (sin ((phi2 - phi1) / 2))\<^sup>2"
      by (rule cos_double_sin)
    finally have "C = 1 - 2 * (sin ((phi2 - phi1) / 2) * sin ((phi2 - phi1) / 2))"
      by (simp only: power2_eq_square)
    moreover have "x = (1 - c) / 2" if "c = 1 - 2 * x" for x c :: real
      using that by simp
    ultimately show ?thesis
      by blast
  qed
  have prod: "cos phi1 * cos phi2 = (C + D) / 2"
    by (simp add: C_def D_def cos_add cos_diff)
  have a: "a = (1 - C) / 2 + (C + D) / 2 * k"
    unfolding a_def half k_def prod [symmetric] by (simp add: mult.assoc)
  have c1: "C * (1 - k) \<le> 1 - k"
  proof -
    have "C * (1 - k) \<le> 1 * (1 - k)"
      using C(2) k(2) by (intro mult_right_mono) simp_all
    then show ?thesis by simp
  qed
  have c2: "- (1 - k) \<le> C * (1 - k)"
  proof -
    have "(- C) * (1 - k) \<le> 1 * (1 - k)"
      using C(1) k(2) by (intro mult_right_mono) simp_all
    then show ?thesis by simp
  qed
  have d1: "D * k \<le> k"
  proof -
    have "D * k \<le> 1 * k"
      using D(2) k(1) by (intro mult_right_mono) simp_all
    then show ?thesis by simp
  qed
  have d2: "- k \<le> D * k"
  proof -
    have "(- D) * k \<le> 1 * k"
      using D(1) k(1) by (intro mult_right_mono) simp_all
    then show ?thesis by simp
  qed
  have "a = 1 / 2 - C * (1 - k) / 2 + D * k / 2"
    unfolding a by (simp add: field_simps)
  then show ?thesis
    using c1 c2 d1 d2 by linarith
qed

lemma atan2_nonneg: "0 \<le> y \<Longrightarrow> 0 \<le> x \<Longrightarrow> 0 \<le> atan2 y x"
  by (simp add: atan2_def)

lemma getDistance_nonneg: "0 \<le> getDistance pos1 pos2"
proof -
  define a where "a = sin (((fst pos2 - fst pos1) * pi / 180) / 2) *
        sin (((fst pos2 - fst pos1) * pi / 180) / 2) +
      cos (fst pos1 * pi / 180) * cos (fst pos2 * pi / 180) *
        sin (((snd pos2 - snd pos1) * pi / 180) / 2) *
        sin (((snd pos2 - snd pos1) * pi / 180) / 2)"
  have d: "(fst pos2 - fst pos1) * pi / 180 = fst pos2 * pi / 180 - fst pos1 * pi / 180"
    by (simp add: algebra_simps diff_divide_distrib)
  have "0 \<le> a \<and> a \<le> 1"
    unfolding a_def d
    by (rule haversine_range [where ?phi1.0 = "fst pos1 * pi / 180"
          and ?phi2.0 = "fst pos2 * pi / 180"
          and dlambda = "(snd pos2 - snd pos1) * pi / 180"])
  then have "0 \<le> atan2 (sqrt a) (sqrt (1 - a))"
    by (intro atan2_nonneg) simp_all
  then show ?thesis
    by (simp add: getDistance_def Let_def a_def)
qed

lemma zero_range_no_event:
  "sensor_range sensor = 0 \<Longrightarrow>
   fst (generateSensorEvent clk actor sensor weather st) = None"
  by (simp add: generateSensorEvent_def detectionProb_def Let_def split: prod.splits)

text \<open>
  Claim C5. Whenever the great-circle distance between the actor and the sensor exceeds
  the sensor's range, \<open>generateSensorEvent\<close> returns no event and leaves the PRNG seed
  (and the clock) as they were: no draw is consumed.
\<close>

theorem range_cutoff:
  "sensor_range sensor < getDistance (actor_pos actor) (sensor_pos sensor) \<Longrightarrow>
   generateSensorEvent clk actor sensor weather st = (None, st)"
  by (simp add: generateSensorEvent_def)

lemma getDistance_antipodal: "getDistance (0, 0) (0, 180) = 6371000 * pi"
  by (simp add: getDistance_def atan2_def Let_def)

lemma getDistance_same: "getDistance p p = 0"
  by (simp add: getDistance_def atan2_def Let_def)

theorem range_cutoff_witness:
  "generateSensorEvent (\<lambda>k. 1000)
     \<lparr>actor_id = ''adv-1'', actor_type = adversary, actor_pos = (0, 0), path = [(0, 0)],
      pathIndex = 0, speed = 20, gpsMode = gps_off\<rparr>
     \<lparr>sensor_id = ''S01'', sensor_type = camera, sensor_pos = (0, 180), sensor_range = 150,
      base_p = 0.8, weather_penalty = [fog \<mapsto> 0.4]\<rparr>
     clear (42, 0) = (None, (42, 0)) \<and>
   (150::real) < getDistance (0, 0) (0, 180)"
proof -
  have far: "(150::real) < 6371000 * pi"
    using pi_ge_two by linarith
  show ?thesis
    using far
      range_cutoff [of "\<lparr>sensor_id = ''S01'', sensor_type = camera, sensor_pos = (0, 180),
          sensor_range = 150, base_p = 0.8, weather_penalty = [fog \<mapsto> 0.4]\<rparr>"
        "\<lparr>actor_id = ''adv-1'', actor_type = adversary, actor_pos = (0, 0), path = [(0, 0)],
          pathIndex = 0, speed = 20, gpsMode = gps_off\<rparr>"
        "\<lambda>k. 1000" clear "(42, 0)"]
    by (simp add: getDistance_antipodal)
qed

text \<open>
  What \<open>generateSensorEvent\<close> returns within a range other than 0: the probability is
  \<open>base_p\<close>, times the entry of \<open>weather_penalty\<close> when the entry is there and is not
  0, times the falloff \<open>1 - distance / range\<close>, times 0.8 for an adversary; the event
  is returned exactly when the draw is below the probability, which is its confidence.
\<close>

lemma generateSensorEvent_within_range:
  assumes "getDistance (actor_pos actor) (sensor_pos sensor) \<le> sensor_range sensor"
    and "sensor_range sensor \<noteq> 0"
  shows "generateSensorEvent clk actor sensor weather (seed, k) =
     (let prob = base_p sensor
                 * (case weather_penalty sensor weather of
                      None \<Rightarrow> 1
                    | Some f \<Rightarrow> if f = 0 then 1 else f)
                 * (1 - getDistance (actor_pos actor) (sensor_pos sensor) / sensor_range sensor)
                 * (if actor_type actor = adversary then 0.8 else 1);
          r = fst (PRNG_next seed)
      in if r < prob
         then (Some \<lparr>timestamp = clk k, sensorId = sensor_id sensor, actorId = actor_id actor,
                      confidence = prob, actorPos = actor_pos actor\<rparr>,
               (snd (PRNG_next seed), Suc k))
         else (None, (snd (PRNG_next seed), k)))"
  using assms
  by (simp add: generateSensorEvent_def detectionProb_def PRNG_random_def Date_now_def Let_def
      split: prod.splits option.splits)

lemma generateSensorEvent_nonzero_penalty:
  assumes "getDistance (actor_pos actor) (sensor_pos sensor) \<le> sensor_range sensor"
    and "sensor_range sensor \<noteq> 0"
    and "weather_penalty sensor weather \<noteq> Some 0"
  shows "generateSensorEvent clk actor sensor weather (seed, k) =
     (let prob = base_p sensor
                 * (case weather_penalty sensor weather of None \<Rightarrow> 1 | Some f \<Rightarrow> f)
                 * (1 - getDistance (actor_pos actor) (sensor_pos sensor) / sensor_range sensor)
                 * (if actor_type actor = adversary then 0.8 else 1);
          r = fst (PRNG_next seed)
      in if r < prob
         then (Some \<lparr>timestamp = clk k, sensorId = sensor_id sensor, actorId = actor_id actor,
                      confidence = prob, actorPos = actor_pos actor\<rparr>,
               (snd (PRNG_next seed), Suc k))
         else (None, (snd (PRNG_next seed), k)))"
proof -
  have "(case weather_penalty sensor weather of None \<Rightarrow> 1 | Some f \<Rightarrow> if f = 0 then 1 else f) =
      (case weather_penalty sensor weather of None \<Rightarrow> (1 :: real) | Some f \<Rightarrow> f)"
    using assms(3) by (simp split: option.splits)
  then show ?thesis
    using generateSensorEvent_within_range [OF assms(1,2), of clk weather seed k]
    by simp
qed

lemma PRNG_next_42: "PRNG_next 42 = (2581720956 / 4294967296, 1831565855)"
  by (simp add: PRNG_next_def Let_def)

lemma getDistance_equator:
  assumes "0 \<le> x" and "x \<le> 90"
  shows "getDistance (0, 0) (0, x) = 6371000 * (x * pi / 180)"
proof -
  define y where "y = x * pi / 180 / 2"
  have y0: "0 \<le> y"
    using assms(1) by (simp add: y_def)
  have "x * pi \<le> 90 * pi"
    using assms(2) by simp
  then have y1: "y \<le> pi / 4"
    by (simp add: y_def)
  have y2: "y < pi / 2"
    using y1 pi_gt_zero by linarith
  have s: "0 \<le> sin y"
    using y0 y2 pi_gt_zero by (intro sin_ge_zero) linarith+
  have c: "0 < cos y"
    using y0 y2 by (intro cos_gt_zero_pi) linarith+
  have "sin y * sin y + cos y * cos y = 1"
    using sin_cos_squared_add [of y] by (simp add: power2_eq_square)
  then have one: "1 - sin y * sin y = cos y * cos y"
    by linarith
  have sq1: "sqrt (sin y * sin y) = sin y"
    using s by simp
  have sq2: "sqrt (1 - sin y * sin y) = cos y"
    unfolding one using c by simp
  have "atan2 (sin y) (cos y) = arctan (tan y)"
    using c by (simp add: atan2_def tan_def)
  also have "\<dots> = y"
    using y0 y2 by (intro arctan_tan) linarith+
  finally have at: "atan2 (sin y) (cos y) = y" .
  have "getDistance (0, 0) (0, x) =
      6371000 * (2 * atan2 (sqrt (sin y * sin y)) (sqrt (1 - sin y * sin y)))"
    by (simp add: getDistance_def Let_def y_def)
  also have "\<dots> = 6371000 * (2 * y)"
    by (simp only: sq1 sq2 at)
  finally show ?thesis
    by (simp add: y_def)
qed

lemma PRNG_next_7: "PRNG_next 7 = (50271532 / 4294967296, 1831565820)"
  by (simp add: PRNG_next_def Let_def)

text \<open>
  Claim C4 fails on the code where the entry of \<open>weather_penalty\<close> for the weather is
  0, by the defect of claim C6: \<open>if (penalty)\<close> is false for 0, so the factor is left
  out of the product. Here an adversary is 6371 * pi / 180 metres (about 111) from a
  sensor of range 150 whose entry for fog is 0. The claim's product \<open>base_p * 0 * falloff
  * 0.8\<close> is 0, so no draw is below it and no event is emitted; the code computes
  \<open>base_p * falloff * 0.8\<close>, which is above 0.03, and with the draw 0.0117 of seed 7 it
  emits an event with that confidence.
\<close>

theorem zero_penalty_detection:
  "getDistance (0, 0) (0, 0.001) = 6371 * pi / 180 \<and>
   6371 * pi / 180 \<le> (150 :: real) \<and>
   generateSensorEvent (\<lambda>k. 1000)
     \<lparr>actor_id = ''adv-1'', actor_type = adversary, actor_pos = (0, 0),
      path = [(0, 0)], pathIndex = 0, speed = 20, gpsMode = gps_off\<rparr>
     \<lparr>sensor_id = ''S01'', sensor_type = camera, sensor_pos = (0, 0.001),
      sensor_range = 150, base_p = 0.8, weather_penalty = [fog \<mapsto> 0]\<rparr>
     fog (7, 0) =
   (Some \<lparr>timestamp = 1000, sensorId = ''S01'', actorId = ''adv-1'',
          confidence = 0.8 * (1 - (6371 * pi / 180) / 150) * 0.8, actorPos = (0, 0)\<rparr>,
    (1831565820, 1)) \<and>
   (0.03 :: real) < 0.8 * (1 - (6371 * pi / 180) / 150) * 0.8 \<and>
   (0.8 :: real) * 0 * (1 - (6371 * pi / 180) / 150) * 0.8 = 0"
proof -
  have d: "getDistance (0, 0) (0, 0.001) = 6371 * pi / 180"
    using getDistance_equator [of "0.001"] by simp
  have d': "getDistance (0, 0) (0, 1 / 1000) = 6371 * pi / 180"
    using d by simp
  have near: "6371 * pi / 180 \<le> (150 :: real)"
    using pi_less_4 by simp
  have prob: "(0.03 :: real) < 0.8 * (1 - (6371 * pi / 180) / 150) * 0.8"
    using pi_less_4 by simp
  have draw: "(50271532 / 4294967296 :: real) < 0.8 * (1 - (6371 * pi / 180) / 150) * 0.8"
    using prob by simp
  have "generateSensorEvent (\<lambda>k. 1000)
     \<lparr>actor_id = ''adv-1'', actor_type = adversary, actor_pos = (0, 0),
      path = [(0, 0)], pathIndex = 0, speed = 20, gpsMode = gps_off\<rparr>
     \<lparr>sensor_id = ''S01'', sensor_type = camera, sensor_pos = (0, 0.001),
      sensor_range = 150, base_p = 0.8, weather_penalty = [fog \<mapsto> 0]\<rparr>
     fog (7, 0) =
   (Some \<lparr>timestamp = 1000, sensorId = ''S01'', actorId = ''adv-1'',
          confidence = 0.8 * (1 - (6371 * pi / 180) / 150) * 0.8, actorPos = (0, 0)\<rparr>,
    (1831565820, 1))"
    using near draw
      generateSensorEvent_within_range [of
        "\<lparr>actor_id = ''adv-1'', actor_type = adversary, actor_pos = (0, 0),
          path = [(0, 0)], pathIndex = 0, speed = 20, gpsMode = gps_off\<rparr>"
        "\<lparr>sensor_id = ''S01'', sensor_type = camera, sensor_pos = (0, 0.001),
          sensor_range = 150, base_p = 0.8, weather_penalty = [fog \<mapsto> 0]\<rparr>"
        "\<lambda>k. 1000" fog 7 0]
    by (simp add: d' PRNG_next_7)
  with d near prob show ?thesis
    by simp
qed

lemma detectionProb_zero_penalty:
  "weather_penalty sensor weather = Some 0 \<Longrightarrow>
   detectionProb actor sensor weather distance =
   detectionProb actor (sensor\<lparr>weather_penalty := (weather_penalty sensor)(weather := None)\<rparr>)
     weather distance"
  by (simp add: detectionProb_def)

lemma detectionProb_penalty:
  "weather_penalty sensor weather = Some f \<Longrightarrow> f \<noteq> 0 \<Longrightarrow> sensor_range sensor \<noteq> 0 \<Longrightarrow>
   detectionProb actor sensor weather distance =
   map_option (\<lambda>p. f * p)
     (detectionProb actor (sensor\<lparr>weather_penalty := (weather_penalty sensor)(weather := None)\<rparr>)
        weather distance)"
  by (simp add: detectionProb_def Let_def)

text \<open>
  Claim C6 fails on the code for a factor of 0. \<open>if (penalty) detectionProb *= penalty\<close>
  tests the entry for truthiness, so a sensor whose entry for the weather is 0 detects
  with its full base probability, as if it had no entry: here a civilian at the sensor's
  position in fog is detected with confidence 0.8, where a factor of 0 gives a
  probability of 0 and no event.
\<close>

theorem weather_penalty_zero_ignored:
  "generateSensorEvent (\<lambda>k. 1000)
     \<lparr>actor_id = ''civ-0'', actor_type = civilian, actor_pos = (34.026, 75.318),
      path = [(34.026, 75.318)], pathIndex = 0, speed = 10, gpsMode = gps_on\<rparr>
     \<lparr>sensor_id = ''S01'', sensor_type = camera, sensor_pos = (34.026, 75.318),
      sensor_range = 150, base_p = 0.8, weather_penalty = [fog \<mapsto> 0]\<rparr>
     fog (42, 0) =
   (Some \<lparr>timestamp = 1000, sensorId = ''S01'', actorId = ''civ-0'', confidence = 0.8,
          actorPos = (34.026, 75.318)\<rparr>,
    (1831565855, 1))"
  by (simp add: generateSensorEvent_def detectionProb_def PRNG_random_def Date_now_def
      getDistance_same PRNG_next_42 Let_def)

section \<open>The rule engine: properties\<close>

lemmas engine_defs =
  runDetectionLogic_def evaluate_rule_def group_sighting_def group_event_step_def
  persistent_sighting_def high_confidence_sighting_def nearbyActorIds_def cooldown_over_def
  reaches_def is_adversary_event_def within_window_def stored_list_def
  generateSensorEvent_def detectionProb_def PRNG_random_def Date_now_def Let_def

lemma show_int_1000: "show_int 1000 = ''1000''"
  by (simp add: show_int_def show_nat.simps digit_char_def)

lemma show_nat_1: "show_nat (Suc 0) = ''1''"
  by (simp add: show_nat.simps [of "Suc 0"] digit_char_def)

lemma show_int_3000: "show_int 3000 = ''3000''"
  by (simp add: show_int_def show_nat.simps digit_char_def)

lemma evaluate_rule_unrecognized:
  "rule_type rule \<notin> {''high_confidence_sighting'', ''persistent_sighting'', ''group_sighting''} \<Longrightarrow>
   evaluate_rule now adv events rule acc = Inr acc"
  by (simp add: evaluate_rule_def)

lemma rules_forEach_filter:
  "rules_forEach now adv events
     (filter (\<lambda>r. rule_type r \<in>
        {''high_confidence_sighting'', ''persistent_sighting'', ''group_sighting''}) rules) acc =
   rules_forEach now adv events rules acc"
proof (induction rules arbitrary: acc)
  case Nil
  show ?case by simp
next
  case (Cons rule rules)
  show ?case
  proof (cases "rule_type rule \<in>
      {''high_confidence_sighting'', ''persistent_sighting'', ''group_sighting''}")
    case True
    then show ?thesis
      using Cons.IH by (simp split: sum.splits)
  next
    case False
    then have "evaluate_rule now adv events rule acc = Inr acc"
      by (rule evaluate_rule_unrecognized)
    with False show ?thesis
      using Cons.IH by simp
  qed
qed

text \<open>
  Claim C9. A rule whose type is none of \<open>high_confidence_sighting\<close>,
  \<open>persistent_sighting\<close> and \<open>group_sighting\<close> falls through the \<open>switch\<close>: it
  raises no error, adds no alert and leaves the state as it is. So the rule engine, and
  with it \<open>runDetectionLogic\<close>, gives the result it gives on the recognized rules alone,
  taken in the order given.
\<close>

theorem unknown_rule_types_skipped:
  "(rule_type rule \<notin> {''high_confidence_sighting'', ''persistent_sighting'', ''group_sighting''}
      \<longrightarrow> evaluate_rule now adv events rule acc = Inr acc) \<and>
   rules_forEach now adv events rules acc =
     rules_forEach now adv events
       (filter (\<lambda>r. rule_type r \<in>
          {''high_confidence_sighting'', ''persistent_sighting'', ''group_sighting''}) rules) acc \<and>
   runDetectionLogic clk actors sensors weather rules currentState st =
     runDetectionLogic clk actors sensors weather
       (filter (\<lambda>r. rule_type r \<in>
          {''high_confidence_sighting'', ''persistent_sighting'', ''group_sighting''}) rules)
       currentState st"
proof (intro conjI impI)
  assume "rule_type rule \<notin>
    {''high_confidence_sighting'', ''persistent_sighting'', ''group_sighting''}"
  then show "evaluate_rule now adv events rule acc = Inr acc"
    by (rule evaluate_rule_unrecognized)
next
  show "rules_forEach now adv events rules acc =
     rules_forEach now adv events
       (filter (\<lambda>r. rule_type r \<in>
          {''high_confidence_sighting'', ''persistent_sighting'', ''group_sighting''}) rules) acc"
    by (simp only: rules_forEach_filter)
next
  show "runDetectionLogic clk actors sensors weather rules currentState st =
     runDetectionLogic clk actors sensors weather
       (filter (\<lambda>r. rule_type r \<in>
          {''high_confidence_sighting'', ''persistent_sighting'', ''group_sighting''}) rules)
       currentState st"
    by (simp only: runDetectionLogic_def rules_forEach_filter)
qed

theorem unknown_rule_types_skipped_witness:
  "''geofence_breach'' \<notin> {''high_confidence_sighting'', ''persistent_sighting'', ''group_sighting''} \<and>
   evaluate_rule 1000 None
     [\<lparr>timestamp = 1000, sensorId = ''S01'', actorId = ''adv-1'', confidence = 0.64,
       actorPos = (34.026, 75.318)\<rparr>]
     \<lparr>rule_id = ''geofence_v1'', rule_type = ''geofence_breach'',
      params = [''radius_m'' \<mapsto> 50]\<rparr>
     ([], Map.empty) = Inr ([], Map.empty)"
  using unknown_rule_types_skipped [THEN conjunct1,
      of "\<lparr>rule_id = ''geofence_v1'', rule_type = ''geofence_breach'',
           params = [''radius_m'' \<mapsto> 50]\<rparr>"
         1000 None
         "[\<lparr>timestamp = 1000, sensorId = ''S01'', actorId = ''adv-1'', confidence = 0.64,
            actorPos = (34.026, 75.318)\<rparr>]"
         "([], Map.empty)"]
  by simp

lemma persistent_sighting_step:
  assumes "params rule ''time_window_s'' = Some w"
    and "params rule ''min_detections'' = Some m"
    and "stored_list (st (rule_id rule)) = Inr old"
  shows "persistent_sighting now adv events rule (alerts, st) =
     (let history = filter (\<lambda>e. real_of_int (now - timestamp e) < w * 1000) old @
                    filter (is_adversary_event adv) events
      in if m \<le> real (length history)
         then Inr (alerts @
                    [\<lparr>alert_id = ''alert-ps-'' @ show_int now, alert_timestamp = now,
                      message = ''Persistent presence of adversary detected.'',
                      level = critical, relatedEvents = history\<rparr>],
                   st(rule_id rule \<mapsto> Events []))
         else Inr (alerts, st(rule_id rule \<mapsto> Events history)))"
  using assms
  by (simp add: persistent_sighting_def within_window_def [abs_def] reaches_def Let_def)

text \<open>
  Claim C2. For a \<open>persistent_sighting\<close> rule with \<open>time_window_s = w\<close> and
  \<open>min_detections = m\<close>, whose entry of the state holds the list \<open>old\<close>: the history is
  \<open>old\<close> pruned to the events less than \<open>w\<close> seconds before \<open>now\<close>, followed by the
  adversary's events of this tick (it holds adversary events only when \<open>old\<close> does).
  When its length reaches \<open>m\<close>, the rule adds exactly one critical alert whose
  \<open>relatedEvents\<close> is the whole history and stores the empty list; otherwise it stores
  the history and adds no alert. After the reset, a tick with fewer than \<open>m\<close> adversary
  events adds no alert: with \<open>m = 3\<close>, the third of three events in a row fires and a
  fourth does not.
\<close>

theorem persistent_sighting_reset:
  assumes "rule_type rule = ''persistent_sighting''"
    and "params rule ''time_window_s'' = Some w"
    and "params rule ''min_detections'' = Some m"
    and "stored_list (st (rule_id rule)) = Inr old"
  shows "let history = filter (\<lambda>e. real_of_int (now - timestamp e) < w * 1000) old @
                       filter (is_adversary_event adv) events
         in evaluate_rule now adv events rule (alerts, st) =
              (if m \<le> real (length history)
               then Inr (alerts @
                          [\<lparr>alert_id = ''alert-ps-'' @ show_int now, alert_timestamp = now,
                            message = ''Persistent presence of adversary detected.'',
                            level = critical, relatedEvents = history\<rparr>],
                         st(rule_id rule \<mapsto> Events []))
               else Inr (alerts, st(rule_id rule \<mapsto> Events history))) \<and>
            (list_all (is_adversary_event adv) old \<longrightarrow>
               list_all (is_adversary_event adv) history) \<and>
            (\<forall>now' events' alerts'.
               real (length (filter (is_adversary_event adv) events')) < m \<longrightarrow>
               evaluate_rule now' adv events' rule (alerts', st(rule_id rule \<mapsto> Events [])) =
                 Inr (alerts',
                      st(rule_id rule \<mapsto> Events (filter (is_adversary_event adv) events'))))"
proof -
  have type: "evaluate_rule t adv evs rule acc = persistent_sighting t adv evs rule acc"
    for t evs acc
    using assms(1) by (simp add: evaluate_rule_def)
  have reset: "stored_list ((st(rule_id rule \<mapsto> Events [])) (rule_id rule)) = Inr []"
    by (simp add: stored_list_def)
  show ?thesis
    unfolding Let_def type
    using persistent_sighting_step [where st = st and old = old, OF assms(2,3,4),
        of now adv events alerts]
      persistent_sighting_step [where st = "st(rule_id rule \<mapsto> Events [])" and old = "[]",
        OF assms(2,3) reset]
    by (auto simp add: Let_def list_all_iff)
qed

theorem persistent_sighting_reset_witness:
  "rule_type (SCENARIO_1_RULES ! 1) = ''persistent_sighting'' \<and>
   params (SCENARIO_1_RULES ! 1) ''time_window_s'' = Some 10 \<and>
   params (SCENARIO_1_RULES ! 1) ''min_detections'' = Some 3 \<and>
   evaluate_rule 1000
     (Some \<lparr>actor_id = ''adv-1'', actor_type = adversary, actor_pos = (34.026, 75.318),
            path = [(34.021, 75.320), (34.026, 75.318), (34.029, 75.310)], pathIndex = 1,
            speed = 20, gpsMode = gps_off\<rparr>)
     [\<lparr>timestamp = 1000, sensorId = ''S01'', actorId = ''adv-1'', confidence = 0.64,
       actorPos = (34.026, 75.318)\<rparr>]
     (SCENARIO_1_RULES ! 1) ([], Map.empty) =
   Inr ([], [''persistent_sighting_v1'' \<mapsto>
               Events [\<lparr>timestamp = 1000, sensorId = ''S01'', actorId = ''adv-1'',
                        confidence = 0.64, actorPos = (34.026, 75.318)\<rparr>]]) \<and>
   evaluate_rule 2000
     (Some \<lparr>actor_id = ''adv-1'', actor_type = adversary, actor_pos = (34.026, 75.318),
            path = [(34.021, 75.320), (34.026, 75.318), (34.029, 75.310)], pathIndex = 1,
            speed = 20, gpsMode = gps_off\<rparr>)
     [\<lparr>timestamp = 2000, sensorId = ''S01'', actorId = ''adv-1'', confidence = 0.64,
       actorPos = (34.026, 75.318)\<rparr>]
     (SCENARIO_1_RULES ! 1)
     ([], [''persistent_sighting_v1'' \<mapsto>
             Events [\<lparr>timestamp = 1000, sensorId = ''S01'', actorId = ''adv-1'',
                      confidence = 0.64, actorPos = (34.026, 75.318)\<rparr>]]) =
   Inr ([], [''persistent_sighting_v1'' \<mapsto>
               Events [\<lparr>timestamp = 1000, sensorId = ''S01'', actorId = ''adv-1'',
                        confidence = 0.64, actorPos = (34.026, 75.318)\<rparr>,
                       \<lparr>timestamp = 2000, sensorId = ''S01'', actorId = ''adv-1'',
                        confidence = 0.64, actorPos = (34.026, 75.318)\<rparr>]]) \<and>
   evaluate_rule 3000
     (Some \<lparr>actor_id = ''adv-1'', actor_type = adversary, actor_pos = (34.026, 75.318),
            path = [(34.021, 75.320), (34.026, 75.318), (34.029, 75.310)], pathIndex = 1,
            speed = 20, gpsMode = gps_off\<rparr>)
     [\<lparr>timestamp = 3000, sensorId = ''S01'', actorId = ''adv-1'', confidence = 0.64,
       actorPos = (34.026, 75.318)\<rparr>]
     (SCENARIO_1_RULES ! 1)
     ([], [''persistent_sighting_v1'' \<mapsto>
             Events [\<lparr>timestamp = 1000, sensorId = ''S01'', actorId = ''adv-1'',
                      confidence = 0.64, actorPos = (34.026, 75.318)\<rparr>,
                     \<lparr>timestamp = 2000, sensorId = ''S01'', actorId = ''adv-1'',
                      confidence = 0.64, actorPos = (34.026, 75.318)\<rparr>]]) =
   Inr ([\<lparr>alert_id = ''alert-ps-3000'', alert_timestamp = 3000,
          message = ''Persistent presence of adversary detected.'', level = critical,
          relatedEvents =
            [\<lparr>timestamp = 1000, sensorId = ''S01'', actorId = ''adv-1'', confidence = 0.64,
              actorPos = (34.026, 75.318)\<rparr>,
             \<lparr>timestamp = 2000, sensorId = ''S01'', actorId = ''adv-1'', confidence = 0.64,
              actorPos = (34.026, 75.318)\<rparr>,
             \<lparr>timestamp = 3000, sensorId = ''S01'', actorId = ''adv-1'', confidence = 0.64,
              actorPos = (34.026, 75.318)\<rparr>]\<rparr>],
        [''persistent_sighting_v1'' \<mapsto> Events []]) \<and>
   evaluate_rule 4000
     (Some \<lparr>actor_id = ''adv-1'', actor_type = adversary, actor_pos = (34.026, 75.318),
            path = [(34.021, 75.320), (34.026, 75.318), (34.029, 75.310)], pathIndex = 1,
            speed = 20, gpsMode = gps_off\<rparr>)
     [\<lparr>timestamp = 4000, sensorId = ''S01'', actorId = ''adv-1'', confidence = 0.64,
       actorPos = (34.026, 75.318)\<rparr>]
     (SCENARIO_1_RULES ! 1) ([], [''persistent_sighting_v1'' \<mapsto> Events []]) =
   Inr ([], [''persistent_sighting_v1'' \<mapsto>
               Events [\<lparr>timestamp = 4000, sensorId = ''S01'', actorId = ''adv-1'',
                        confidence = 0.64, actorPos = (34.026, 75.318)\<rparr>]])"
  using persistent_sighting_reset [of "SCENARIO_1_RULES ! 1" 10 3
      "[''persistent_sighting_v1'' \<mapsto>
             Events [\<lparr>timestamp = 1000, sensorId = ''S01'', actorId = ''adv-1'',
                      confidence = 0.64, actorPos = (34.026, 75.318)\<rparr>,
                     \<lparr>timestamp = 2000, sensorId = ''S01'', actorId = ''adv-1'',
                      confidence = 0.64, actorPos = (34.026, 75.318)\<rparr>]]"
      "[\<lparr>timestamp = 1000, sensorId = ''S01'', actorId = ''adv-1'',
                      confidence = 0.64, actorPos = (34.026, 75.318)\<rparr>,
                     \<lparr>timestamp = 2000, sensorId = ''S01'', actorId = ''adv-1'',
                      confidence = 0.64, actorPos = (34.026, 75.318)\<rparr>]"
      3000
      "Some \<lparr>actor_id = ''adv-1'', actor_type = adversary, actor_pos = (34.026, 75.318),
            path = [(34.021, 75.320), (34.026, 75.318), (34.029, 75.310)], pathIndex = 1,
            speed = 20, gpsMode = gps_off\<rparr>"
      "[\<lparr>timestamp = 3000, sensorId = ''S01'', actorId = ''adv-1'', confidence = 0.64,
       actorPos = (34.026, 75.318)\<rparr>]" "[]"]
  by (simp add: SCENARIO_1_RULES_def evaluate_rule_def persistent_sighting_def
      stored_list_def within_window_def reaches_def is_adversary_event_def Let_def
      show_int_3000)

text \<open>
  Claim C10 fails on the code for \<open>group_sighting\<close>: the alert of that rule is built
  with \<open>relatedEvents: []\<close>, while the two other rules attach the events that caused
  the alert. Here the adversary, detected at the position of sensor S01, makes a
  \<open>group_sighting\<close> rule with \<open>min_actors = 1\<close> fire, and the alert carries no event.
\<close>

theorem group_alert_without_events:
  "fst (runDetectionLogic (\<lambda>k. 1000)
     [\<lparr>actor_id = ''adv-1'', actor_type = adversary, actor_pos = (34.026, 75.318),
       path = [(34.026, 75.318)], pathIndex = 0, speed = 20, gpsMode = gps_off\<rparr>]
     [\<lparr>sensor_id = ''S01'', sensor_type = camera, sensor_pos = (34.026, 75.318),
       sensor_range = 150, base_p = 0.8, weather_penalty = [fog \<mapsto> 0.4]\<rparr>]
     clear
     [\<lparr>rule_id = ''group_sighting_v1'', rule_type = ''group_sighting'',
       params = [''radius_m'' \<mapsto> 50, ''time_window_s'' \<mapsto> 10, ''min_actors'' \<mapsto> 1]\<rparr>]
     Map.empty (42, 0)) =
   Inr \<lparr>newAlerts =
          [\<lparr>alert_id = ''alert-gs-1000'', alert_timestamp = 1000,
            message = ''Suspicious group of 1 actors detected near adversary.'',
            level = critical, relatedEvents = []\<rparr>],
        newEvents =
          [\<lparr>timestamp = 1000, sensorId = ''S01'', actorId = ''adv-1'', confidence = 0.64,
            actorPos = (34.026, 75.318)\<rparr>],
        updatedState =
          [''group_sighting_v1'' \<mapsto>
             Events [\<lparr>timestamp = 1000, sensorId = ''S01'', actorId = ''adv-1'',
                      confidence = 0.64, actorPos = (34.026, 75.318)\<rparr>],
           ''group_sighting_v1-cooldown'' \<mapsto> Num 11000]\<rparr>"
  by (simp add: engine_defs getDistance_same PRNG_next_42 show_int_1000 show_nat_1)

lemma nearby_fold_invariant:
  "distinct ids \<Longrightarrow>
   distinct (fold (\<lambda>histEvent ids.
             if (case radius of
                   None \<Rightarrow> False
                 | Some r \<Rightarrow> getDistance p (actorPos histEvent) < r)
             then (if actorId histEvent \<in> set ids then ids else ids @ [actorId histEvent])
             else ids) history ids) \<and>
   set (fold (\<lambda>histEvent ids.
             if (case radius of
                   None \<Rightarrow> False
                 | Some r \<Rightarrow> getDistance p (actorPos histEvent) < r)
             then (if actorId histEvent \<in> set ids then ids else ids @ [actorId histEvent])
             else ids) history ids) =
     set ids \<union> {actorId h | h. h \<in> set history \<and>
                     (case radius of None \<Rightarrow> False | Some r \<Rightarrow> getDistance p (actorPos h) < r)}"
proof (induction history arbitrary: ids)
  case Nil
  then show ?case by simp
next
  case (Cons h history)
  let ?near = "case radius of None \<Rightarrow> False | Some r \<Rightarrow> getDistance p (actorPos h) < r"
  let ?ids' = "if ?near then (if actorId h \<in> set ids then ids else ids @ [actorId h]) else ids"
  have d: "distinct ?ids'"
    using Cons.prems by simp
  have s: "set ?ids' = set ids \<union> (if ?near then {actorId h} else {})"
    by auto
  show ?case
    using Cons.IH [OF d] s by simp blast
qed

lemma nearbyActorIds_card:
  "length (nearbyActorIds (Some r) e history) =
   card (insert (actorId e)
          {actorId h | h. h \<in> set history \<and> getDistance (actorPos e) (actorPos h) < r})"
proof -
  have "distinct [actorId e]" by simp
  from nearby_fold_invariant [OF this, where radius = "Some r" and p = "actorPos e"
      and history = history]
  have d: "distinct (nearbyActorIds (Some r) e history)"
    and s: "set (nearbyActorIds (Some r) e history) =
      insert (actorId e)
        {actorId h | h. h \<in> set history \<and> getDistance (actorPos e) (actorPos h) < r}"
    by (simp_all add: nearbyActorIds_def)
  from distinct_card [OF d] s show ?thesis by simp
qed

lemma group_loop_suppressed:
  "\<not> cooldown_over now (s (rule_id rule @ ''-cooldown'')) \<Longrightarrow>
   fold (group_event_step now rule history) evs (al, s) = (al, s)"
  by (induction evs) (simp_all add: group_event_step_def Let_def)

lemma group_loop_fires:
  assumes "params rule ''time_window_s'' = Some w"
    and "\<not> cooldown_over now (Some (Num (real_of_int now + w * 1000)))"
    and "cooldown_over now (s (rule_id rule @ ''-cooldown''))"
  shows "fold (group_event_step now rule history) evs (al, s) =
     (case find (\<lambda>e. reaches (length (nearbyActorIds (params rule ''radius_m'') e history))
                       (params rule ''min_actors'')) evs of
        None \<Rightarrow> (al, s)
      | Some e \<Rightarrow>
          (al @ [\<lparr>alert_id = ''alert-gs-'' @ show_int now, alert_timestamp = now,
                  message = ''Suspicious group of '' @
                    show_nat (length (nearbyActorIds (params rule ''radius_m'') e history)) @
                    '' actors detected near adversary.'',
                  level = critical, relatedEvents = []\<rparr>],
           s(rule_id rule @ ''-cooldown'' \<mapsto> Num (real_of_int now + w * 1000))))"
  using assms(3)
proof (induction evs)
  case Nil
  show ?case by simp
next
  case (Cons e evs)
  show ?case
  proof (cases "reaches (length (nearbyActorIds (params rule ''radius_m'') e history))
                       (params rule ''min_actors'')")
    case True
    have after: "\<not> cooldown_over now
        ((s(rule_id rule @ ''-cooldown'' \<mapsto> Num (real_of_int now + w * 1000)))
           (rule_id rule @ ''-cooldown''))"
      using assms(2) by simp
    have step: "group_event_step now rule history e (al, s) =
        (al @ [\<lparr>alert_id = ''alert-gs-'' @ show_int now, alert_timestamp = now,
                  message = ''Suspicious group of '' @
                    show_nat (length (nearbyActorIds (params rule ''radius_m'') e history)) @
                    '' actors detected near adversary.'',
                  level = critical, relatedEvents = []\<rparr>],
         s(rule_id rule @ ''-cooldown'' \<mapsto> Num (real_of_int now + w * 1000)))"
      using True Cons.prems assms(1) by (simp add: group_event_step_def Let_def)
    show ?thesis
      using True
        group_loop_suppressed [where s = "s(rule_id rule @ ''-cooldown'' \<mapsto>
          Num (real_of_int now + w * 1000))", OF after]
      by (simp add: step)
  next
    case False
    then have step: "group_event_step now rule history e (al, s) = (al, s)"
      by (simp add: group_event_step_def Let_def)
    show ?thesis
      using False Cons.IH [OF Cons.prems] by (simp add: step)
  qed
qed

lemma find_filter_conj: "find P (filter Q xs) = find (\<lambda>x. Q x \<and> P x) xs"
  by (induction xs) simp_all

text \<open>
  Claim C3, as the code has it. For a \<open>group_sighting\<close> rule with \<open>radius_m = r\<close>,
  \<open>time_window_s = w\<close> and \<open>min_actors = m\<close>, the history is the stored list followed
  by this tick's events, pruned to the window, and the rule treats the adversary's events
  of the tick one after the other. For each of them it counts the distinct actor
  identities, the adversary's own included, of the events of the history within \<open>r\<close>
  metres of it; when the count reaches \<open>m\<close> it adds one critical alert and sets the
  cooldown to \<open>now + w * 1000\<close>, provided no cooldown is stored, or the stored one is 0 or
  lies strictly before \<open>now\<close>. A stored cooldown \<open>c\<close> other than 0 with \<open>now \<le> c\<close>
  suppresses every alert of the rule: also at the instant \<open>now = c\<close>, when the cooldown
  is no longer in the future. With a window that is not negative, a tick adds at most
  one alert, for its first qualifying event.
\<close>

theorem group_sighting_cooldown:
  assumes "rule_type rule = ''group_sighting''"
    and "params rule ''radius_m'' = Some r"
    and "params rule ''time_window_s'' = Some w"
    and "params rule ''min_actors'' = Some m"
    and "stored_list (st (rule_id rule)) = Inr old"
  shows
    "let key = rule_id rule @ ''-cooldown'';
         history = filter (\<lambda>e. real_of_int (now - timestamp e) < w * 1000) (old @ events);
         st1 = st(rule_id rule \<mapsto> Events history);
         count = (\<lambda>e :: SensorEvent. card (insert (actorId e)
                    {actorId h | h. h \<in> set history \<and>
                                   getDistance (actorPos e) (actorPos h) < r}));
         gs_alert = (\<lambda>n.
           \<lparr>alert_id = ''alert-gs-'' @ show_int now, alert_timestamp = now,
            message = ''Suspicious group of '' @ show_nat n @
                      '' actors detected near adversary.'',
            level = critical, relatedEvents = []\<rparr>)
     in evaluate_rule now adv events rule (alerts, st) =
          Inr (fold (group_event_step now rule history)
                 (filter (is_adversary_event adv) events) (alerts, st1)) \<and>
        (\<forall>e al s. group_event_step now rule history e (al, s) =
           (if m \<le> real (count e) \<and> cooldown_over now (s key)
            then (al @ [gs_alert (count e)], s(key \<mapsto> Num (real_of_int now + w * 1000)))
            else (al, s))) \<and>
        cooldown_over now None \<and>
        (\<forall>c. cooldown_over now (Some (Num c)) \<longleftrightarrow> c = 0 \<or> c < real_of_int now) \<and>
        (\<not> cooldown_over now (st key) \<longrightarrow>
           evaluate_rule now adv events rule (alerts, st) = Inr (alerts, st1)) \<and>
        (0 \<le> w \<and> 0 < now \<longrightarrow>
           evaluate_rule now adv events rule (alerts, st) =
             (case find (\<lambda>e. is_adversary_event adv e \<and> m \<le> real (count e)) events of
                None \<Rightarrow> Inr (alerts, st1)
              | Some e \<Rightarrow>
                  if cooldown_over now (st key)
                  then Inr (alerts @ [gs_alert (count e)],
                            st1(key \<mapsto> Num (real_of_int now + w * 1000)))
                  else Inr (alerts, st1)))"
proof -
  define key where "key = rule_id rule @ ''-cooldown''"
  define history where
    "history = filter (\<lambda>e. real_of_int (now - timestamp e) < w * 1000) (old @ events)"
  define st1 where "st1 = st(rule_id rule \<mapsto> Events history)"
  define count where "count = (\<lambda>e :: SensorEvent. card (insert (actorId e)
      {actorId h | h. h \<in> set history \<and> getDistance (actorPos e) (actorPos h) < r}))"
  define gs_alert where "gs_alert = (\<lambda>n.
      \<lparr>alert_id = ''alert-gs-'' @ show_int now, alert_timestamp = now,
       message = ''Suspicious group of '' @ show_nat n @ '' actors detected near adversary.'',
       level = critical, relatedEvents = []\<rparr>)"
  have key: "st1 key = st key"
    by (simp add: st1_def key_def)
  have unfold: "evaluate_rule now adv events rule (alerts, st) =
      Inr (fold (group_event_step now rule history)
             (filter (is_adversary_event adv) events) (alerts, st1))"
    using assms(1,3,5)
    by (simp add: evaluate_rule_def group_sighting_def within_window_def [abs_def] Let_def
        history_def st1_def)
  have count: "length (nearbyActorIds (params rule ''radius_m'') e history) = count e" for e
    by (simp only: assms(2) nearbyActorIds_card count_def)
  have step: "group_event_step now rule history e (al, s) =
      (if m \<le> real (count e) \<and> cooldown_over now (s key)
       then (al @ [gs_alert (count e)], s(key \<mapsto> Num (real_of_int now + w * 1000)))
       else (al, s))" for e al s
    by (simp add: group_event_step_def Let_def count assms(3,4) reaches_def gs_alert_def
        key_def)
  have open_none: "cooldown_over now None"
    by (simp add: cooldown_over_def)
  have open_num: "cooldown_over now (Some (Num c)) \<longleftrightarrow> c = 0 \<or> c < real_of_int now" for c
    by (simp add: cooldown_over_def)
  have suppressed: "evaluate_rule now adv events rule (alerts, st) = Inr (alerts, st1)"
    if "\<not> cooldown_over now (st key)"
  proof -
    have "\<not> cooldown_over now (st1 (rule_id rule @ ''-cooldown''))"
      using that key by (simp add: key_def)
    from group_loop_suppressed [where s = st1, OF this]
    show ?thesis
      by (simp only: unfold)
  qed
  have fired: "evaluate_rule now adv events rule (alerts, st) =
      (case find (\<lambda>e. is_adversary_event adv e \<and> m \<le> real (count e)) events of
         None \<Rightarrow> Inr (alerts, st1)
       | Some e \<Rightarrow>
           if cooldown_over now (st key)
           then Inr (alerts @ [gs_alert (count e)],
                     st1(key \<mapsto> Num (real_of_int now + w * 1000)))
           else Inr (alerts, st1))"
    if side: "0 \<le> w \<and> 0 < now"
  proof (cases "cooldown_over now (st key)")
    case True
    have after: "\<not> cooldown_over now (Some (Num (real_of_int now + w * 1000)))"
    proof -
      have "0 \<le> w * 1000" using side by simp
      moreover have "0 < real_of_int now" using side by simp
      ultimately show ?thesis by (simp add: cooldown_over_def)
    qed
    have "cooldown_over now (st1 (rule_id rule @ ''-cooldown''))"
      using True key by (simp add: key_def)
    from group_loop_fires [where s = st1, OF assms(3) after this,
        of history "filter (is_adversary_event adv) events" alerts]
    have "evaluate_rule now adv events rule (alerts, st) =
      Inr (case find (\<lambda>e. is_adversary_event adv e \<and> m \<le> real (count e)) events of
        None \<Rightarrow> (alerts, st1)
      | Some e \<Rightarrow> (alerts @ [gs_alert (count e)],
           st1(key \<mapsto> Num (real_of_int now + w * 1000))))"
      by (simp only: unfold count find_filter_conj assms(4) reaches_def option.case
          gs_alert_def key_def)
    then show ?thesis
      using True by (simp split: option.splits)
  next
    case False
    then show ?thesis
      using suppressed [OF False] by (simp split: option.splits)
  qed
  have "evaluate_rule now adv events rule (alerts, st) =
          Inr (fold (group_event_step now rule history)
                 (filter (is_adversary_event adv) events) (alerts, st1)) \<and>
        (\<forall>e al s. group_event_step now rule history e (al, s) =
           (if m \<le> real (count e) \<and> cooldown_over now (s key)
            then (al @ [gs_alert (count e)], s(key \<mapsto> Num (real_of_int now + w * 1000)))
            else (al, s))) \<and>
        cooldown_over now None \<and>
        (\<forall>c. cooldown_over now (Some (Num c)) \<longleftrightarrow> c = 0 \<or> c < real_of_int now) \<and>
        (\<not> cooldown_over now (st key) \<longrightarrow>
           evaluate_rule now adv events rule (alerts, st) = Inr (alerts, st1)) \<and>
        (0 \<le> w \<and> 0 < now \<longrightarrow>
           evaluate_rule now adv events rule (alerts, st) =
             (case find (\<lambda>e. is_adversary_event adv e \<and> m \<le> real (count e)) events of
                None \<Rightarrow> Inr (alerts, st1)
              | Some e \<Rightarrow>
                  if cooldown_over now (st key)
                  then Inr (alerts @ [gs_alert (count e)],
                            st1(key \<mapsto> Num (real_of_int now + w * 1000)))
                  else Inr (alerts, st1)))"
    using unfold step open_none open_num suppressed fired by blast
  then show ?thesis
    unfolding Let_def key_def history_def st1_def count_def gs_alert_def .
qed

lemma show_int_12000: "show_int 12000 = ''12000''"
  by (simp add: show_int_def show_nat.simps digit_char_def)

lemma show_int_10000: "show_int 10000 = ''10000''"
  by (simp add: show_int_def show_nat.simps digit_char_def)

lemmas rule_defs =
  evaluate_rule_def group_sighting_def group_event_step_def
  persistent_sighting_def high_confidence_sighting_def nearbyActorIds_def cooldown_over_def
  reaches_def is_adversary_event_def within_window_def stored_list_def Let_def

theorem group_sighting_cooldown_witness:
  "params \<lparr>rule_id = ''group_sighting_v1'', rule_type = ''group_sighting'',
      params = [''radius_m'' \<mapsto> 50, ''time_window_s'' \<mapsto> 1, ''min_actors'' \<mapsto> 1]\<rparr>
      ''time_window_s'' = Some 1 \<and>
   stored_list
     ([''group_sighting_v1'' \<mapsto>
         Events [\<lparr>timestamp = 10000, sensorId = ''S01'', actorId = ''adv-1'',
                  confidence = 0.64, actorPos = (34.026, 75.318)\<rparr>],
       ''group_sighting_v1-cooldown'' \<mapsto> Num 11000] ''group_sighting_v1'') =
     Inr [\<lparr>timestamp = 10000, sensorId = ''S01'', actorId = ''adv-1'',
                  confidence = 0.64, actorPos = (34.026, 75.318)\<rparr>] \<and>
   evaluate_rule 10500
     (Some \<lparr>actor_id = ''adv-1'', actor_type = adversary, actor_pos = (34.026, 75.318),
            path = [(34.021, 75.320), (34.026, 75.318), (34.029, 75.310)], pathIndex = 1,
            speed = 20, gpsMode = gps_off\<rparr>)
     [\<lparr>timestamp = 10500, sensorId = ''S01'', actorId = ''adv-1'', confidence = 0.64,
       actorPos = (34.026, 75.318)\<rparr>]
     \<lparr>rule_id = ''group_sighting_v1'', rule_type = ''group_sighting'',
      params = [''radius_m'' \<mapsto> 50, ''time_window_s'' \<mapsto> 1, ''min_actors'' \<mapsto> 1]\<rparr>
     ([],
      [''group_sighting_v1'' \<mapsto>
         Events [\<lparr>timestamp = 10000, sensorId = ''S01'', actorId = ''adv-1'',
                  confidence = 0.64, actorPos = (34.026, 75.318)\<rparr>],
       ''group_sighting_v1-cooldown'' \<mapsto> Num 11000]) =
   Inr ([],
        [''group_sighting_v1'' \<mapsto>
           Events [\<lparr>timestamp = 10000, sensorId = ''S01'', actorId = ''adv-1'',
                    confidence = 0.64, actorPos = (34.026, 75.318)\<rparr>,
                   \<lparr>timestamp = 10500, sensorId = ''S01'', actorId = ''adv-1'',
                    confidence = 0.64, actorPos = (34.026, 75.318)\<rparr>],
         ''group_sighting_v1-cooldown'' \<mapsto> Num 11000]) \<and>
   evaluate_rule 12000
     (Some \<lparr>actor_id = ''adv-1'', actor_type = adversary, actor_pos = (34.026, 75.318),
            path = [(34.021, 75.320), (34.026, 75.318), (34.029, 75.310)], pathIndex = 1,
            speed = 20, gpsMode = gps_off\<rparr>)
     [\<lparr>timestamp = 12000, sensorId = ''S01'', actorId = ''adv-1'', confidence = 0.64,
       actorPos = (34.026, 75.318)\<rparr>]
     \<lparr>rule_id = ''group_sighting_v1'', rule_type = ''group_sighting'',
      params = [''radius_m'' \<mapsto> 50, ''time_window_s'' \<mapsto> 1, ''min_actors'' \<mapsto> 1]\<rparr>
     ([],
      [''group_sighting_v1'' \<mapsto>
         Events [\<lparr>timestamp = 10000, sensorId = ''S01'', actorId = ''adv-1'',
                  confidence = 0.64, actorPos = (34.026, 75.318)\<rparr>],
       ''group_sighting_v1-cooldown'' \<mapsto> Num 11000]) =
   Inr ([\<lparr>alert_id = ''alert-gs-12000'', alert_timestamp = 12000,
          message = ''Suspicious group of 1 actors detected near adversary.'',
          level = critical, relatedEvents = []\<rparr>],
        [''group_sighting_v1'' \<mapsto>
           Events [\<lparr>timestamp = 12000, sensorId = ''S01'', actorId = ''adv-1'',
                    confidence = 0.64, actorPos = (34.026, 75.318)\<rparr>],
         ''group_sighting_v1-cooldown'' \<mapsto> Num 13000])"
  using group_sighting_cooldown [where rule =
      "\<lparr>rule_id = ''group_sighting_v1'', rule_type = ''group_sighting'',
        params = [''radius_m'' \<mapsto> 50, ''time_window_s'' \<mapsto> 1, ''min_actors'' \<mapsto> 1]\<rparr>"
      and r = 50 and w = 1 and m = 1
      and st = "[''group_sighting_v1'' \<mapsto>
         Events [\<lparr>timestamp = 10000, sensorId = ''S01'', actorId = ''adv-1'',
                  confidence = 0.64, actorPos = (34.026, 75.318)\<rparr>],
       ''group_sighting_v1-cooldown'' \<mapsto> Num 11000]"
      and old = "[\<lparr>timestamp = 10000, sensorId = ''S01'', actorId = ''adv-1'',
                  confidence = 0.64, actorPos = (34.026, 75.318)\<rparr>]"
      and now = 10500
      and events = "[\<lparr>timestamp = 10500, sensorId = ''S01'', actorId = ''adv-1'',
         confidence = 0.64, actorPos = (34.026, 75.318)\<rparr>]"
      and adv = "Some \<lparr>actor_id = ''adv-1'', actor_type = adversary,
            actor_pos = (34.026, 75.318),
            path = [(34.021, 75.320), (34.026, 75.318), (34.029, 75.310)], pathIndex = 1,
            speed = 20, gpsMode = gps_off\<rparr>"
      and alerts = "[]"]
  by (simp add: rule_defs getDistance_same show_int_12000 show_nat_1 fun_upd_twist)

text \<open>
  Claim C3 as stated fails at the instant the cooldown ends. The rule (with a window of
  one second) fires at 10000 and sets the cooldown to 11000. At 11000 the cooldown is not
  in the future any more and the adversary's event qualifies (one actor, \<open>min_actors =
  1\<close>), yet no alert is added: the code asks for \<open>now > cooldown\<close>.
\<close>

theorem group_sighting_at_cooldown_counterexample:
  "evaluate_rule 10000
     (Some \<lparr>actor_id = ''adv-1'', actor_type = adversary, actor_pos = (34.026, 75.318),
            path = [(34.021, 75.320), (34.026, 75.318), (34.029, 75.310)], pathIndex = 1,
            speed = 20, gpsMode = gps_off\<rparr>)
     [\<lparr>timestamp = 10000, sensorId = ''S01'', actorId = ''adv-1'', confidence = 0.64,
       actorPos = (34.026, 75.318)\<rparr>]
     \<lparr>rule_id = ''group_sighting_v1'', rule_type = ''group_sighting'',
      params = [''radius_m'' \<mapsto> 50, ''time_window_s'' \<mapsto> 1, ''min_actors'' \<mapsto> 1]\<rparr>
     ([], Map.empty) =
   Inr ([\<lparr>alert_id = ''alert-gs-10000'', alert_timestamp = 10000,
          message = ''Suspicious group of 1 actors detected near adversary.'',
          level = critical, relatedEvents = []\<rparr>],
        [''group_sighting_v1'' \<mapsto>
           Events [\<lparr>timestamp = 10000, sensorId = ''S01'', actorId = ''adv-1'',
                    confidence = 0.64, actorPos = (34.026, 75.318)\<rparr>],
         ''group_sighting_v1-cooldown'' \<mapsto> Num 11000]) \<and>
   \<not> real_of_int 11000 < (11000 :: real) \<and>
   length (nearbyActorIds (Some 50)
     \<lparr>timestamp = 11000, sensorId = ''S01'', actorId = ''adv-1'', confidence = 0.64,
      actorPos = (34.026, 75.318)\<rparr>
     [\<lparr>timestamp = 11000, sensorId = ''S01'', actorId = ''adv-1'', confidence = 0.64,
       actorPos = (34.026, 75.318)\<rparr>]) = 1 \<and>
   evaluate_rule 11000
     (Some \<lparr>actor_id = ''adv-1'', actor_type = adversary, actor_pos = (34.026, 75.318),
            path = [(34.021, 75.320), (34.026, 75.318), (34.029, 75.310)], pathIndex = 1,
            speed = 20, gpsMode = gps_off\<rparr>)
     [\<lparr>timestamp = 11000, sensorId = ''S01'', actorId = ''adv-1'', confidence = 0.64,
       actorPos = (34.026, 75.318)\<rparr>]
     \<lparr>rule_id = ''group_sighting_v1'', rule_type = ''group_sighting'',
      params = [''radius_m'' \<mapsto> 50, ''time_window_s'' \<mapsto> 1, ''min_actors'' \<mapsto> 1]\<rparr>
     ([],
      [''group_sighting_v1'' \<mapsto>
         Events [\<lparr>timestamp = 10000, sensorId = ''S01'', actorId = ''adv-1'',
                  confidence = 0.64, actorPos = (34.026, 75.318)\<rparr>],
       ''group_sighting_v1-cooldown'' \<mapsto> Num 11000]) =
   Inr ([],
        [''group_sighting_v1'' \<mapsto>
           Events [\<lparr>timestamp = 11000, sensorId = ''S01'', actorId = ''adv-1'',
                    confidence = 0.64, actorPos = (34.026, 75.318)\<rparr>],
         ''group_sighting_v1-cooldown'' \<mapsto> Num 11000])"
  by (simp add: rule_defs getDistance_same show_int_10000 show_nat_1 fun_upd_twist)

section \<open>Determinism of a detection tick\<close>

lemma generateSensorEvent_reads_mono:
  "snd st \<le> snd (snd (generateSensorEvent clk actor sensor weather st))"
  by (simp add: generateSensorEvent_def Date_now_def Let_def split: prod.splits option.splits)

lemma generateSensorEvent_state_clock_free:
  "snd (generateSensorEvent clk1 actor sensor weather st) =
   snd (generateSensorEvent clk2 actor sensor weather st)"
  by (simp add: generateSensorEvent_def Date_now_def Let_def split: prod.splits option.splits)

lemma generateSensorEvent_same_readings:
  assumes "\<forall>n. snd st \<le> n \<and> n < snd (snd (generateSensorEvent clk1 actor sensor weather st))
             \<longrightarrow> clk1 n = clk2 n"
  shows "generateSensorEvent clk2 actor sensor weather st =
         generateSensorEvent clk1 actor sensor weather st"
  using assms
  by (auto simp add: generateSensorEvent_def Date_now_def Let_def split: prod.splits option.splits)

lemma sensors_loop_reads_mono:
  "snd (snd acc) \<le> snd (snd (sensors_loop clk actor weather sensors acc))"
proof (induction sensors arbitrary: acc)
  case Nil
  show ?case by simp
next
  case (Cons sensor sensors)
  obtain r st' where g: "generateSensorEvent clk actor sensor weather (snd acc) = (r, st')"
    by (cases "generateSensorEvent clk actor sensor weather (snd acc)")
  have "snd (snd acc) \<le> snd st'"
    using generateSensorEvent_reads_mono [of "snd acc" clk actor sensor weather] g by simp
  moreover have "snd st' \<le> snd (snd (sensors_loop clk actor weather sensors (evs, st')))" for evs
    using Cons.IH [of "(evs, st')"] by simp
  ultimately show ?case
    using g by (cases r) (auto intro: order_trans)
qed

lemma sensors_loop_state_clock_free:
  "snd acc1 = snd acc2 \<Longrightarrow>
   snd (sensors_loop clk1 actor weather sensors acc1) =
   snd (sensors_loop clk2 actor weather sensors acc2)"
proof (induction sensors arbitrary: acc1 acc2)
  case Nil
  then show ?case by simp
next
  case (Cons sensor sensors)
  obtain r1 st1 where g1: "generateSensorEvent clk1 actor sensor weather (snd acc1) = (r1, st1)"
    by (cases "generateSensorEvent clk1 actor sensor weather (snd acc1)")
  obtain r2 st2 where g2: "generateSensorEvent clk2 actor sensor weather (snd acc2) = (r2, st2)"
    by (cases "generateSensorEvent clk2 actor sensor weather (snd acc2)")
  have "st1 = st2"
    using g1 g2 Cons.prems
      generateSensorEvent_state_clock_free [of clk1 actor sensor weather "snd acc1" clk2]
    by simp
  then show ?case
    using g1 g2 Cons.IH [of "(e1, st1)" "(e2, st2)" for e1 e2]
    by (cases r1; cases r2) simp_all
qed

lemma sensors_loop_same_readings:
  assumes "\<forall>n. snd (snd acc) \<le> n \<and> n < snd (snd (sensors_loop clk1 actor weather sensors acc))
             \<longrightarrow> clk1 n = clk2 n"
  shows "sensors_loop clk2 actor weather sensors acc = sensors_loop clk1 actor weather sensors acc"
  using assms
proof (induction sensors arbitrary: acc)
  case Nil
  show ?case by simp
next
  case (Cons sensor sensors)
  obtain r st' where g: "generateSensorEvent clk1 actor sensor weather (snd acc) = (r, st')"
    by (cases "generateSensorEvent clk1 actor sensor weather (snd acc)")
  define acc' where "acc' = (case r of None \<Rightarrow> (fst acc, st') | Some ev \<Rightarrow> (fst acc @ [ev], st'))"
  have loop: "sensors_loop clk1 actor weather (sensor # sensors) acc =
      sensors_loop clk1 actor weather sensors acc'"
    using g by (simp add: acc'_def split: option.splits)
  have st': "snd acc' = st'"
    by (simp add: acc'_def split: option.splits)
  have le1: "snd (snd acc) \<le> snd st'"
    using generateSensorEvent_reads_mono [of "snd acc" clk1 actor sensor weather] g by simp
  have le2: "snd st' \<le> snd (snd (sensors_loop clk1 actor weather sensors acc'))"
    using sensors_loop_reads_mono [of acc' clk1 actor weather sensors] st' by simp
  have "generateSensorEvent clk2 actor sensor weather (snd acc) =
      generateSensorEvent clk1 actor sensor weather (snd acc)"
  proof (rule generateSensorEvent_same_readings, intro allI impI)
    fix n
    assume "snd (snd acc) \<le> n \<and>
      n < snd (snd (generateSensorEvent clk1 actor sensor weather (snd acc)))"
    then have "snd (snd acc) \<le> n \<and>
      n < snd (snd (sensors_loop clk1 actor weather (sensor # sensors) acc))"
      using le2 g loop by simp
    then show "clk1 n = clk2 n"
      using Cons.prems by blast
  qed
  then have g2: "generateSensorEvent clk2 actor sensor weather (snd acc) = (r, st')"
    using g by simp
  have loop2: "sensors_loop clk2 actor weather (sensor # sensors) acc =
      sensors_loop clk2 actor weather sensors acc'"
    using g2 by (simp add: acc'_def split: option.splits)
  have "sensors_loop clk2 actor weather sensors acc' =
      sensors_loop clk1 actor weather sensors acc'"
  proof (rule Cons.IH, intro allI impI)
    fix n
    assume "snd (snd acc') \<le> n \<and> n < snd (snd (sensors_loop clk1 actor weather sensors acc'))"
    then have "snd (snd acc) \<le> n \<and>
      n < snd (snd (sensors_loop clk1 actor weather (sensor # sensors) acc))"
      using le1 st' loop by simp
    then show "clk1 n = clk2 n"
      using Cons.prems by blast
  qed
  then show ?case
    using loop loop2 by simp
qed

lemma actors_loop_reads_mono:
  "snd (snd acc) \<le> snd (snd (actors_loop clk weather sensors actors acc))"
proof (induction actors arbitrary: acc)
  case Nil
  show ?case by simp
next
  case (Cons actor actors)
  have "snd (snd acc) \<le> snd (snd (sensors_loop clk actor weather sensors acc))"
    by (rule sensors_loop_reads_mono)
  also have "\<dots> \<le> snd (snd (actors_loop clk weather sensors actors
      (sensors_loop clk actor weather sensors acc)))"
    by (rule Cons.IH)
  finally show ?case by simp
qed

lemma actors_loop_state_clock_free:
  "snd acc1 = snd acc2 \<Longrightarrow>
   snd (actors_loop clk1 weather sensors actors acc1) =
   snd (actors_loop clk2 weather sensors actors acc2)"
proof (induction actors arbitrary: acc1 acc2)
  case Nil
  then show ?case by simp
next
  case (Cons actor actors)
  have "snd (sensors_loop clk1 actor weather sensors acc1) =
      snd (sensors_loop clk2 actor weather sensors acc2)"
    using Cons.prems by (rule sensors_loop_state_clock_free)
  then show ?case
    using Cons.IH by simp
qed

lemma actors_loop_same_readings:
  assumes "\<forall>n. snd (snd acc) \<le> n \<and> n < snd (snd (actors_loop clk1 weather sensors actors acc))
             \<longrightarrow> clk1 n = clk2 n"
  shows "actors_loop clk2 weather sensors actors acc = actors_loop clk1 weather sensors actors acc"
  using assms
proof (induction actors arbitrary: acc)
  case Nil
  show ?case by simp
next
  case (Cons actor actors)
  let ?acc1 = "sensors_loop clk1 actor weather sensors acc"
  have le1: "snd (snd acc) \<le> snd (snd ?acc1)"
    by (rule sensors_loop_reads_mono)
  have le2: "snd (snd ?acc1) \<le> snd (snd (actors_loop clk1 weather sensors actors ?acc1))"
    by (rule actors_loop_reads_mono)
  have s: "sensors_loop clk2 actor weather sensors acc = ?acc1"
  proof (rule sensors_loop_same_readings, intro allI impI)
    fix n
    assume "snd (snd acc) \<le> n \<and> n < snd (snd ?acc1)"
    then have "snd (snd acc) \<le> n \<and>
        n < snd (snd (actors_loop clk1 weather sensors (actor # actors) acc))"
      using le2 by simp
    then show "clk1 n = clk2 n"
      using Cons.prems by blast
  qed
  have "actors_loop clk2 weather sensors actors ?acc1 =
      actors_loop clk1 weather sensors actors ?acc1"
  proof (rule Cons.IH, intro allI impI)
    fix n
    assume "snd (snd ?acc1) \<le> n \<and> n < snd (snd (actors_loop clk1 weather sensors actors ?acc1))"
    then have "snd (snd acc) \<le> n \<and>
        n < snd (snd (actors_loop clk1 weather sensors (actor # actors) acc))"
      using le1 by simp
    then show "clk1 n = clk2 n"
      using Cons.prems by blast
  qed
  then show ?case
    using s by simp
qed

lemma generateSensorEvent_event_clock_free:
  "map_option (timestamp_update (\<lambda>_. 0)) (fst (generateSensorEvent clk1 actor sensor weather st)) =
   map_option (timestamp_update (\<lambda>_. 0)) (fst (generateSensorEvent clk2 actor sensor weather st))"
  by (simp add: generateSensorEvent_def Date_now_def Let_def split: prod.splits option.splits)

lemma sensors_loop_events_clock_free:
  "snd acc1 = snd acc2 \<Longrightarrow>
   map (timestamp_update (\<lambda>_. 0)) (fst acc1) = map (timestamp_update (\<lambda>_. 0)) (fst acc2) \<Longrightarrow>
   map (timestamp_update (\<lambda>_. 0)) (fst (sensors_loop clk1 actor weather sensors acc1)) =
   map (timestamp_update (\<lambda>_. 0)) (fst (sensors_loop clk2 actor weather sensors acc2))"
proof (induction sensors arbitrary: acc1 acc2)
  case Nil
  then show ?case by simp
next
  case (Cons sensor sensors)
  obtain r1 st1 where g1: "generateSensorEvent clk1 actor sensor weather (snd acc1) = (r1, st1)"
    by (cases "generateSensorEvent clk1 actor sensor weather (snd acc1)")
  obtain r2 st2 where g2: "generateSensorEvent clk2 actor sensor weather (snd acc2) = (r2, st2)"
    by (cases "generateSensorEvent clk2 actor sensor weather (snd acc2)")
  have st: "st1 = st2"
    using g1 g2 Cons.prems(1)
      generateSensorEvent_state_clock_free [of clk1 actor sensor weather "snd acc1" clk2]
    by simp
  have ev: "map_option (timestamp_update (\<lambda>_. 0)) r1 = map_option (timestamp_update (\<lambda>_. 0)) r2"
    using g1 g2 Cons.prems(1)
      generateSensorEvent_event_clock_free [of clk1 actor sensor weather "snd acc1" clk2]
    by simp
  show ?case
  proof (cases r1)
    case None
    then have "r2 = None" using ev by simp
    with None show ?thesis
      using g1 g2 st Cons.prems(2) Cons.IH [of "(fst acc1, st1)" "(fst acc2, st2)"]
      by simp
  next
    case (Some e1)
    then obtain e2 where r2: "r2 = Some e2"
      and e: "timestamp_update (\<lambda>_. 0) e1 = timestamp_update (\<lambda>_. 0) e2"
      using ev by (cases r2) simp_all
    show ?thesis
      using Some r2 e g1 g2 st Cons.prems(2)
        Cons.IH [of "(fst acc1 @ [e1], st1)" "(fst acc2 @ [e2], st2)"]
      by simp
  qed
qed

lemma actors_loop_events_clock_free:
  "snd acc1 = snd acc2 \<Longrightarrow>
   map (timestamp_update (\<lambda>_. 0)) (fst acc1) = map (timestamp_update (\<lambda>_. 0)) (fst acc2) \<Longrightarrow>
   map (timestamp_update (\<lambda>_. 0)) (fst (actors_loop clk1 weather sensors actors acc1)) =
   map (timestamp_update (\<lambda>_. 0)) (fst (actors_loop clk2 weather sensors actors acc2))"
proof (induction actors arbitrary: acc1 acc2)
  case Nil
  then show ?case by simp
next
  case (Cons actor actors)
  have "snd (sensors_loop clk1 actor weather sensors acc1) =
      snd (sensors_loop clk2 actor weather sensors acc2)"
    using Cons.prems(1) by (rule sensors_loop_state_clock_free)
  moreover have "map (timestamp_update (\<lambda>_. 0)) (fst (sensors_loop clk1 actor weather sensors acc1)) =
      map (timestamp_update (\<lambda>_. 0)) (fst (sensors_loop clk2 actor weather sensors acc2))"
    using Cons.prems by (rule sensors_loop_events_clock_free)
  ultimately show ?case
    using Cons.IH by simp
qed

lemma runDetectionLogic_state:
  "snd (runDetectionLogic clk actors sensors weather rules currentState st) =
   (let res = actors_loop clk weather sensors actors ([], st)
    in if fst res = [] then snd res else (fst (snd res), Suc (snd (snd res))))"
  by (simp add: runDetectionLogic_def Date_now_def Let_def split: prod.splits sum.splits)

text \<open>
  Claim C1, as the code has it. \<open>runDetectionLogic\<close> reads the wall clock: once for the
  timestamp of every event it emits and once for \<open>now\<close> when there are events. Its
  result (events, alerts, updated state, PRNG seed) is a function of its arguments, the
  PRNG seed and these readings: two runs on the same inputs whose clocks agree on the
  readings taken during the call return the same. The PRNG seed after the call and the
  number of readings taken do not depend on the clock at all.
\<close>

theorem detection_deterministic_given_clock:
  "((\<forall>n. k \<le> n \<and>
          n < snd (snd (runDetectionLogic clk1 actors sensors weather rules currentState (seed, k)))
          \<longrightarrow> clk1 n = clk2 n) \<longrightarrow>
     runDetectionLogic clk2 actors sensors weather rules currentState (seed, k) =
     runDetectionLogic clk1 actors sensors weather rules currentState (seed, k)) \<and>
   snd (runDetectionLogic clk2 actors sensors weather rules currentState (seed, k)) =
   snd (runDetectionLogic clk1 actors sensors weather rules currentState (seed, k))"
proof (intro conjI impI)
  let ?res1 = "actors_loop clk1 weather sensors actors ([], (seed, k))"
  let ?res2 = "actors_loop clk2 weather sensors actors ([], (seed, k))"
  have st: "snd ?res2 = snd ?res1"
    by (rule actors_loop_state_clock_free) simp
  have "map (timestamp_update (\<lambda>_. 0)) (fst ?res2) = map (timestamp_update (\<lambda>_. 0)) (fst ?res1)"
    by (rule actors_loop_events_clock_free) simp_all
  then have empty: "fst ?res2 = [] \<longleftrightarrow> fst ?res1 = []"
    by (metis map_is_Nil_conv)
  show "snd (runDetectionLogic clk2 actors sensors weather rules currentState (seed, k)) =
      snd (runDetectionLogic clk1 actors sensors weather rules currentState (seed, k))"
    by (simp add: runDetectionLogic_state Let_def st empty)
  assume agree: "\<forall>n. k \<le> n \<and>
          n < snd (snd (runDetectionLogic clk1 actors sensors weather rules currentState (seed, k)))
          \<longrightarrow> clk1 n = clk2 n"
  have le: "snd (snd ?res1) \<le>
      snd (snd (runDetectionLogic clk1 actors sensors weather rules currentState (seed, k)))"
    by (simp add: runDetectionLogic_state Let_def)
  have mono: "k \<le> snd (snd ?res1)"
    using actors_loop_reads_mono [of "([], (seed, k))" clk1 weather sensors actors] by simp
  have loop: "?res2 = ?res1"
  proof (rule actors_loop_same_readings, intro allI impI)
    fix n
    assume "snd (snd ([], (seed, k))) \<le> n \<and> n < snd (snd ?res1)"
    then have "k \<le> n \<and>
        n < snd (snd (runDetectionLogic clk1 actors sensors weather rules currentState (seed, k)))"
      using le by simp
    then show "clk1 n = clk2 n"
      using agree by blast
  qed
  have now: "clk1 (snd (snd ?res1)) = clk2 (snd (snd ?res1))" if "fst ?res1 \<noteq> []"
  proof -
    have "snd (snd ?res1) <
        snd (snd (runDetectionLogic clk1 actors sensors weather rules currentState (seed, k)))"
      using that by (simp add: runDetectionLogic_state Let_def)
    then show ?thesis
      using agree mono by blast
  qed
  show "runDetectionLogic clk2 actors sensors weather rules currentState (seed, k) =
      runDetectionLogic clk1 actors sensors weather rules currentState (seed, k)"
    using now by (auto simp add: runDetectionLogic_def loop Date_now_def Let_def split: prod.splits)
qed

theorem detection_deterministic_given_clock_witness:
  "snd (snd (runDetectionLogic (\<lambda>k. 3000)
     [\<lparr>actor_id = ''adv-1'', actor_type = adversary, actor_pos = (34.026, 75.318),
       path = [(34.021, 75.320), (34.026, 75.318), (34.029, 75.310)], pathIndex = 1,
       speed = 20, gpsMode = gps_off\<rparr>]
     [SCENARIO_1_SENSORS ! 0] clear SCENARIO_1_RULES Map.empty (42, 0))) = 2 \<and>
   runDetectionLogic (\<lambda>k. if k < 2 then 3000 else 60000)
     [\<lparr>actor_id = ''adv-1'', actor_type = adversary, actor_pos = (34.026, 75.318),
       path = [(34.021, 75.320), (34.026, 75.318), (34.029, 75.310)], pathIndex = 1,
       speed = 20, gpsMode = gps_off\<rparr>]
     [SCENARIO_1_SENSORS ! 0] clear SCENARIO_1_RULES Map.empty (42, 0) =
   runDetectionLogic (\<lambda>k. 3000)
     [\<lparr>actor_id = ''adv-1'', actor_type = adversary, actor_pos = (34.026, 75.318),
       path = [(34.021, 75.320), (34.026, 75.318), (34.029, 75.310)], pathIndex = 1,
       speed = 20, gpsMode = gps_off\<rparr>]
     [SCENARIO_1_SENSORS ! 0] clear SCENARIO_1_RULES Map.empty (42, 0)"
proof -
  have reads: "snd (snd (runDetectionLogic (\<lambda>k. 3000)
     [\<lparr>actor_id = ''adv-1'', actor_type = adversary, actor_pos = (34.026, 75.318),
       path = [(34.021, 75.320), (34.026, 75.318), (34.029, 75.310)], pathIndex = 1,
       speed = 20, gpsMode = gps_off\<rparr>]
     [SCENARIO_1_SENSORS ! 0] clear SCENARIO_1_RULES Map.empty (42, 0))) = 2"
    by (simp add: engine_defs SCENARIO_1_SENSORS_def SCENARIO_1_RULES_def getDistance_same
        PRNG_next_42)
  have "\<forall>n. 0 \<le> n \<and> n < snd (snd (runDetectionLogic (\<lambda>k. 3000)
     [\<lparr>actor_id = ''adv-1'', actor_type = adversary, actor_pos = (34.026, 75.318),
       path = [(34.021, 75.320), (34.026, 75.318), (34.029, 75.310)], pathIndex = 1,
       speed = 20, gpsMode = gps_off\<rparr>]
     [SCENARIO_1_SENSORS ! 0] clear SCENARIO_1_RULES Map.empty (42, 0)))
     \<longrightarrow> (\<lambda>k. 3000) n = (\<lambda>k. if k < 2 then 3000 else (60000 :: int)) n"
    unfolding reads by simp
  from detection_deterministic_given_clock [THEN conjunct1, THEN mp, OF this] reads
  show ?thesis
    by (rule conjI [rotated])
qed

text \<open>
  Claim C1 as stated fails: the clock is an input the claim does not fix. With the same
  seed, actors, sensor, rules and rolling state, a run at time 3000 fires the persistent
  sighting rule of scenario 1 (the two stored events are within its window of ten
  seconds), and a run at time 60000 prunes them and fires nothing; the timestamps of the
  events and the updated state differ as well.
\<close>

theorem detection_depends_on_clock_counterexample:
  "fst (runDetectionLogic (\<lambda>k. 3000)
     [\<lparr>actor_id = ''adv-1'', actor_type = adversary, actor_pos = (34.026, 75.318),
       path = [(34.021, 75.320), (34.026, 75.318), (34.029, 75.310)], pathIndex = 1,
       speed = 20, gpsMode = gps_off\<rparr>]
     [SCENARIO_1_SENSORS ! 0] clear SCENARIO_1_RULES
     [''persistent_sighting_v1'' \<mapsto>
        Events [\<lparr>timestamp = 1000, sensorId = ''S01'', actorId = ''adv-1'', confidence = 0.64,
                 actorPos = (34.026, 75.318)\<rparr>,
                \<lparr>timestamp = 2000, sensorId = ''S01'', actorId = ''adv-1'', confidence = 0.64,
                 actorPos = (34.026, 75.318)\<rparr>]]
     (42, 0)) =
   Inr \<lparr>newAlerts =
          [\<lparr>alert_id = ''alert-ps-3000'', alert_timestamp = 3000,
            message = ''Persistent presence of adversary detected.'', level = critical,
            relatedEvents =
              [\<lparr>timestamp = 1000, sensorId = ''S01'', actorId = ''adv-1'', confidence = 0.64,
                actorPos = (34.026, 75.318)\<rparr>,
               \<lparr>timestamp = 2000, sensorId = ''S01'', actorId = ''adv-1'', confidence = 0.64,
                actorPos = (34.026, 75.318)\<rparr>,
               \<lparr>timestamp = 3000, sensorId = ''S01'', actorId = ''adv-1'', confidence = 0.64,
                actorPos = (34.026, 75.318)\<rparr>]\<rparr>],
        newEvents =
          [\<lparr>timestamp = 3000, sensorId = ''S01'', actorId = ''adv-1'', confidence = 0.64,
            actorPos = (34.026, 75.318)\<rparr>],
        updatedState = [''persistent_sighting_v1'' \<mapsto> Events []]\<rparr> \<and>
   fst (runDetectionLogic (\<lambda>k. 60000)
     [\<lparr>actor_id = ''adv-1'', actor_type = adversary, actor_pos = (34.026, 75.318),
       path = [(34.021, 75.320), (34.026, 75.318), (34.029, 75.310)], pathIndex = 1,
       speed = 20, gpsMode = gps_off\<rparr>]
     [SCENARIO_1_SENSORS ! 0] clear SCENARIO_1_RULES
     [''persistent_sighting_v1'' \<mapsto>
        Events [\<lparr>timestamp = 1000, sensorId = ''S01'', actorId = ''adv-1'', confidence = 0.64,
                 actorPos = (34.026, 75.318)\<rparr>,
                \<lparr>timestamp = 2000, sensorId = ''S01'', actorId = ''adv-1'', confidence = 0.64,
                 actorPos = (34.026, 75.318)\<rparr>]]
     (42, 0)) =
   Inr \<lparr>newAlerts = [],
        newEvents =
          [\<lparr>timestamp = 60000, sensorId = ''S01'', actorId = ''adv-1'', confidence = 0.64,
            actorPos = (34.026, 75.318)\<rparr>],
        updatedState =
          [''persistent_sighting_v1'' \<mapsto>
             Events [\<lparr>timestamp = 60000, sensorId = ''S01'', actorId = ''adv-1'',
                      confidence = 0.64, actorPos = (34.026, 75.318)\<rparr>]]\<rparr>"
  by (simp add: engine_defs SCENARIO_1_SENSORS_def SCENARIO_1_RULES_def getDistance_same
      PRNG_next_42 show_int_3000)

section \<open>The orchestrator: properties\<close>

lemma PRNG_next_range: "0 \<le> fst (PRNG_next seed) \<and> fst (PRNG_next seed) < 1"
proof -
  have "unat w < 4294967296" for w :: "32 word"
    using unsigned_less [of w, where ?'a = nat] by simp
  then have "real (unat w) < 4294967296" for w :: "32 word"
    by (metis of_nat_less_iff of_nat_numeral)
  then have less: "(unsigned w :: real) < 4294967296" for w :: "32 word"
    by (simp only: of_nat_unat)
  have "0 \<le> real (unat w)" for w :: "32 word"
    by (rule of_nat_0_le_iff)
  then have nonneg: "0 \<le> (unsigned w :: real)" for w :: "32 word"
    by (simp only: of_nat_unat)
  show ?thesis
    by (simp add: PRNG_next_def Let_def less nonneg)
qed

lemma getRandomPoiName_some:
  assumes "filter (\<lambda>name. name \<notin> set exclude) (map fst POINTS_OF_INTEREST) \<noteq> []"
  shows "\<exists>n. fst (getRandomPoiName seed exclude) = Some n \<and>
             n \<in> set (map fst POINTS_OF_INTEREST) \<and> n \<notin> set exclude"
proof -
  define poiNames where
    "poiNames = filter (\<lambda>name. name \<notin> set exclude) (map fst POINTS_OF_INTEREST)"
  define r where "r = fst (PRNG_next seed)"
  define i where "i = nat \<lfloor>r * real (length poiNames)\<rfloor>"
  have r: "0 \<le> r" "r < 1"
    using PRNG_next_range [of seed] by (simp_all add: r_def)
  have "poiNames \<noteq> []"
    using assms unfolding poiNames_def .
  then have len: "0 < length poiNames"
    by simp
  have "r * real (length poiNames) < real (length poiNames)"
    using r len by simp
  then have "\<lfloor>r * real (length poiNames)\<rfloor> < int (length poiNames)"
    by (simp add: floor_less_iff)
  then have i: "i < length poiNames"
    using r by (simp add: i_def nat_less_iff)
  have "fst (getRandomPoiName seed exclude) = Some (poiNames ! i)"
    using i
    by (simp add: getRandomPoiName_def PRNG_random_def Let_def poiNames_def i_def r_def
        case_prod_beta)
  moreover have "poiNames ! i \<in> set poiNames"
    using i by simp
  ultimately show ?thesis
    by (auto simp add: poiNames_def)
qed

lemma poi_pos_key:
  assumes "n \<in> set (map fst POINTS_OF_INTEREST)"
  shows "\<exists>p. poi_pos (Some n) = Inr p"
proof -
  have "map_of POINTS_OF_INTEREST n \<noteq> None"
    using assms by (simp add: map_of_eq_None_iff)
  then show ?thesis
    by (auto simp add: poi_pos_def)
qed

lemma getRandomPoiName_seed:
  "snd (getRandomPoiName seed exclude) = snd (PRNG_next seed)"
  by (simp add: getRandomPoiName_def PRNG_random_def Let_def case_prod_beta)

lemma advance_civilian_at_end:
  assumes "int (length (path actor)) - 1 \<le> int (pathIndex actor)"
    and "actor_type actor = civilian"
  shows "\<exists>p. advance_actor actor seed =
     (Inr (actor\<lparr>path := [actor_pos actor, p], pathIndex := 0\<rparr>), snd (PRNG_next seed))"
proof -
  have "filter (\<lambda>name. name \<notin> set []) (map fst POINTS_OF_INTEREST) \<noteq> []"
    by (simp add: POINTS_OF_INTEREST_def)
  from getRandomPoiName_some [OF this, of seed]
  obtain n where n: "fst (getRandomPoiName seed []) = Some n"
    and key: "n \<in> set (map fst POINTS_OF_INTEREST)"
    by blast
  from poi_pos_key [OF key] obtain p where p: "poi_pos (Some n) = Inr p"
    by blast
  have "getRandomPoiName seed [] = (Some n, snd (PRNG_next seed))"
    using n getRandomPoiName_seed [of seed "[]"] by (simp add: prod_eq_iff)
  then have "advance_actor actor seed =
     (Inr (actor\<lparr>path := [actor_pos actor, p], pathIndex := 0\<rparr>), snd (PRNG_next seed))"
    using assms p by (simp add: advance_actor_def)
  then show ?thesis ..
qed

lemma advance_actor_cases:
  "(\<exists>a'. advance_actor actor seed = (Inr a', if int (length (path actor)) - 1 \<le> int (pathIndex actor) \<and> actor_type actor = civilian then snd (PRNG_next seed) else seed) \<and>
     actor_type a' = actor_type actor \<and> actor_id a' = actor_id actor \<and>
     (if int (length (path actor)) - 1 \<le> int (pathIndex actor)
      then (if actor_type actor = civilian
            then (\<exists>p. a' = actor\<lparr>path := [actor_pos actor, p], pathIndex := 0\<rparr>)
            else a' = actor)
      else a' = actor\<lparr>pathIndex := pathIndex actor + 1,
                       actor_pos := path actor ! (pathIndex actor + 1)\<rparr>))"
proof (cases "int (length (path actor)) - 1 \<le> int (pathIndex actor)")
  case True
  show ?thesis
  proof (cases "actor_type actor = civilian")
    case civ: True
    from advance_civilian_at_end [OF True civ, of seed]
    obtain p where "advance_actor actor seed =
       (Inr (actor\<lparr>path := [actor_pos actor, p], pathIndex := 0\<rparr>), snd (PRNG_next seed))"
      by blast
    then show ?thesis
      using True civ
      by (intro exI [of _ "actor\<lparr>path := [actor_pos actor, p], pathIndex := 0\<rparr>"])
        (simp del: split_paired_Ex, blast)
  next
    case False
    then show ?thesis
      using True by (simp add: advance_actor_def)
  qed
next
  case False
  then show ?thesis
    by (simp add: advance_actor_def Let_def)
qed

lemma advance_actor_on_path:
  assumes "on_path actor"
  shows "\<exists>a' seed'. advance_actor actor seed = (Inr a', seed') \<and> on_path a'"
proof -
  from advance_actor_cases [of actor seed] obtain a' seed' where
    adv: "advance_actor actor seed = (Inr a', seed')"
    and shape: "if int (length (path actor)) - 1 \<le> int (pathIndex actor)
      then (if actor_type actor = civilian
            then (\<exists>p. a' = actor\<lparr>path := [actor_pos actor, p], pathIndex := 0\<rparr>)
            else a' = actor)
      else a' = actor\<lparr>pathIndex := pathIndex actor + 1,
                       actor_pos := path actor ! (pathIndex actor + 1)\<rparr>"
    by blast
  have "on_path a'"
  proof (cases "int (length (path actor)) - 1 \<le> int (pathIndex actor)")
    case True
    then show ?thesis
      using shape assms by (auto simp add: on_path_def split: if_splits)
  next
    case False
    then have "pathIndex actor + 1 < length (path actor)"
      by linarith
    then show ?thesis
      using shape False by (simp add: on_path_def)
  qed
  with adv show ?thesis by blast
qed

lemma advance_all_total:
  "\<exists>actors' seed'. advance_all actors seed = (Inr actors', seed')"
proof (induction actors arbitrary: seed)
  case Nil
  show ?case by simp
next
  case (Cons actor actors)
  from advance_actor_cases [of actor seed] obtain a' seed1 where
    a: "advance_actor actor seed = (Inr a', seed1)"
    by blast
  from Cons.IH [of seed1] obtain actors' seed2 where
    "advance_all actors seed1 = (Inr actors', seed2)"
    by blast
  with a show ?case by simp
qed

lemma advance_all_on_path:
  assumes "\<forall>a\<in>set actors. on_path a"
    and "advance_all actors seed = (Inr actors', seed')"
  shows "\<forall>a\<in>set actors'. on_path a"
  using assms
proof (induction actors arbitrary: seed actors' seed')
  case Nil
  then show ?case by simp
next
  case (Cons actor actors)
  from Cons.prems(1) have "on_path actor"
    by simp
  from advance_actor_on_path [OF this, of seed] obtain a' seed1 where
    a: "advance_actor actor seed = (Inr a', seed1)" and on: "on_path a'"
    by blast
  from advance_all_total [of actors seed1] obtain rest seed2 where
    r: "advance_all actors seed1 = (Inr rest, seed2)"
    by blast
  have "\<forall>a\<in>set rest. on_path a"
    using Cons.IH [OF _ r] Cons.prems(1) by simp
  moreover have "actors' = a' # rest"
    using Cons.prems(2) a r by simp
  ultimately show ?case
    using on by simp
qed

lemma advance_all_adversary:
  assumes "advance_all actors seed = (Inr actors', seed')"
  shows "case find (\<lambda>a. actor_type a = adversary) actors of
           None \<Rightarrow> find (\<lambda>a. actor_type a = adversary) actors' = None
         | Some a \<Rightarrow>
             find (\<lambda>a. actor_type a = adversary) actors' =
               Some (if int (length (path a)) - 1 \<le> int (pathIndex a) then a
                     else a\<lparr>pathIndex := pathIndex a + 1,
                            actor_pos := path a ! (pathIndex a + 1)\<rparr>)"
  using assms
proof (induction actors arbitrary: seed actors' seed')
  case Nil
  then show ?case by simp
next
  case (Cons actor actors)
  from advance_actor_cases [of actor seed] obtain a' seed1 where
    a: "advance_actor actor seed = (Inr a', seed1)"
    and type: "actor_type a' = actor_type actor"
    and shape: "if int (length (path actor)) - 1 \<le> int (pathIndex actor)
      then (if actor_type actor = civilian
            then (\<exists>p. a' = actor\<lparr>path := [actor_pos actor, p], pathIndex := 0\<rparr>)
            else a' = actor)
      else a' = actor\<lparr>pathIndex := pathIndex actor + 1,
                       actor_pos := path actor ! (pathIndex actor + 1)\<rparr>"
    by blast
  from advance_all_total [of actors seed1] obtain rest seed2 where
    r: "advance_all actors seed1 = (Inr rest, seed2)"
    by blast
  have actors': "actors' = a' # rest"
    using Cons.prems a r by simp
  show ?case
  proof (cases "actor_type actor = adversary")
    case True
    then have "a' = (if int (length (path actor)) - 1 \<le> int (pathIndex actor) then actor
                     else actor\<lparr>pathIndex := pathIndex actor + 1,
                            actor_pos := path actor ! (pathIndex actor + 1)\<rparr>)"
      using shape by (simp split: if_splits)
    then show ?thesis
      using True type actors' by simp
  next
    case False
    then show ?thesis
      using type actors' Cons.IH [OF r] by (auto split: option.splits)
  qed
qed

lemma scenario_path_nonempty: "scenario_path start_pos end_pos raw \<noteq> []"
  by (simp add: scenario_path_def)

lemma make_civilian_on_path:
  "\<exists>c seed'. make_civilian i seed = (Inr c, seed') \<and> on_path c"
proof -
  have all: "filter (\<lambda>name. name \<notin> set []) (map fst POINTS_OF_INTEREST) \<noteq> []"
    by (simp add: POINTS_OF_INTEREST_def)
  from getRandomPoiName_some [OF all, of seed] obtain n1 where
    n1: "fst (getRandomPoiName seed []) = Some n1"
    and k1: "n1 \<in> set (map fst POINTS_OF_INTEREST)"
    by blast
  define seed1 where "seed1 = snd (getRandomPoiName seed [])"
  have "\<exists>x \<in> set (map fst POINTS_OF_INTEREST). x \<notin> set [n1]"
  proof (cases "n1 = ''Parking''")
    case True
    then have "''Meadow'' \<in> set (map fst POINTS_OF_INTEREST) \<and> ''Meadow'' \<notin> set [n1]"
      by (simp add: POINTS_OF_INTEREST_def)
    then show ?thesis by blast
  next
    case False
    then have "''Parking'' \<in> set (map fst POINTS_OF_INTEREST) \<and> ''Parking'' \<notin> set [n1]"
      by (simp add: POINTS_OF_INTEREST_def)
    then show ?thesis by blast
  qed
  then have rest: "filter (\<lambda>name. name \<notin> set [n1]) (map fst POINTS_OF_INTEREST) \<noteq> []"
    by (simp only: filter_empty_conv) blast
  from getRandomPoiName_some [OF rest, of seed1] obtain n2 where
    n2: "fst (getRandomPoiName seed1 [n1]) = Some n2"
    and k2: "n2 \<in> set (map fst POINTS_OF_INTEREST)"
    by blast
  from poi_pos_key [OF k1] obtain p1 where p1: "poi_pos (Some n1) = Inr p1"
    by blast
  from poi_pos_key [OF k2] obtain p2 where p2: "poi_pos (Some n2) = Inr p2"
    by blast
  have "make_civilian i seed =
      (Inr \<lparr>actor_id = ''civ-'' @ show_nat i, actor_type = civilian,
            actor_pos = p1, path = [p1, p2], pathIndex = 0,
            speed = 10, gpsMode = gps_on\<rparr>,
       snd (getRandomPoiName seed1 [n1]))"
    using n1 n2 p1 p2
    by (simp add: make_civilian_def seed1_def case_prod_beta)
  then show ?thesis
    by (simp add: on_path_def)
qed

text \<open>
  Claim C8. The adversary and the civilians are created with \<open>pathIndex\<close> a valid index
  of \<open>path\<close> and \<open>pos = path[pathIndex]\<close> (the path of the adversary is never empty
  after the correction in \<open>generateAdversarialScenario\<close>). The advance of an actor never
  throws and keeps this: the ordinary advance moves to the next waypoint, an adversary at
  the end stays as it is, and a civilian at the end gets the two-point path that starts
  at its position, with \<open>pathIndex\<close> 0. So it holds of every actor after every tick's
  advance.
\<close>

theorem actors_stay_on_path:
  "on_path (make_adversary raw mode) \<and>
   (\<exists>c seed'. make_civilian i seed = (Inr c, seed') \<and> on_path c) \<and>
   (on_path a \<longrightarrow> (\<exists>a' seed'. advance_actor a seed = (Inr a', seed') \<and> on_path a')) \<and>
   ((\<forall>a \<in> set actors. on_path a) \<longrightarrow>
      (\<exists>actors' seed'. advance_all actors seed = (Inr actors', seed') \<and>
         (\<forall>a \<in> set actors'. on_path a)))"
proof (intro conjI impI)
  show "on_path (make_adversary raw mode)"
    using scenario_path_nonempty [of "(34.021, 75.320)" "(34.029, 75.310)" raw]
    by (simp add: make_adversary_def on_path_def Let_def)
  show "\<exists>c seed'. make_civilian i seed = (Inr c, seed') \<and> on_path c"
    by (rule make_civilian_on_path)
  show "\<exists>a' seed'. advance_actor a seed = (Inr a', seed') \<and> on_path a'" if "on_path a"
    using that by (rule advance_actor_on_path)
  show "\<exists>actors' seed'. advance_all actors seed = (Inr actors', seed') \<and>
         (\<forall>a \<in> set actors'. on_path a)" if "\<forall>a \<in> set actors. on_path a"
    using advance_all_total [of actors seed] advance_all_on_path [OF that] by blast
qed

lemma getRandomPoiName_42: "getRandomPoiName 42 [] = (Some ''Viewpoint'', 1831565855)"
  by (simp add: getRandomPoiName_def PRNG_random_def PRNG_next_42 POINTS_OF_INTEREST_def Let_def)

theorem actors_stay_on_path_witness:
  "on_path \<lparr>actor_id = ''civ-0'', actor_type = civilian, actor_pos = (34.029, 75.310),
            path = [(34.021, 75.320), (34.029, 75.310)], pathIndex = 1, speed = 10,
            gpsMode = gps_on\<rparr> \<and>
   advance_actor \<lparr>actor_id = ''civ-0'', actor_type = civilian, actor_pos = (34.029, 75.310),
            path = [(34.021, 75.320), (34.029, 75.310)], pathIndex = 1, speed = 10,
            gpsMode = gps_on\<rparr> 42 =
     (Inr \<lparr>actor_id = ''civ-0'', actor_type = civilian, actor_pos = (34.029, 75.310),
            path = [(34.029, 75.310), (34.0285, 75.319)], pathIndex = 0, speed = 10,
            gpsMode = gps_on\<rparr>, 1831565855) \<and>
   on_path \<lparr>actor_id = ''civ-0'', actor_type = civilian, actor_pos = (34.029, 75.310),
            path = [(34.029, 75.310), (34.0285, 75.319)], pathIndex = 0, speed = 10,
            gpsMode = gps_on\<rparr>"
  using actors_stay_on_path [THEN conjunct2, THEN conjunct2, THEN conjunct1,
      of "\<lparr>actor_id = ''civ-0'', actor_type = civilian, actor_pos = (34.029, 75.310),
            path = [(34.021, 75.320), (34.029, 75.310)], pathIndex = 1, speed = 10,
            gpsMode = gps_on\<rparr>" 42]
  by (simp add: on_path_def advance_actor_def getRandomPoiName_42 poi_pos_def
      POINTS_OF_INTEREST_def)

lemma tick_continue:
  assumes "tick clk sensors rules s = Inr s'"
  shows "\<exists>actors' seed' a.
           advance_all (currentActors s) (prng s) = (Inr actors', seed') \<and>
           currentActors s' = actors' \<and>
           find (\<lambda>a. actor_type a = adversary) (currentActors s) = Some a \<and>
           find (\<lambda>a. actor_type a = adversary) actors' =
             Some (a\<lparr>pathIndex := pathIndex a + 1,
                      actor_pos := path a ! (pathIndex a + 1)\<rparr>) \<and>
           pathIndex a + 1 < length (path a) - 1"
proof -
  from advance_all_total [of "currentActors s" "prng s"] obtain actors' seed' where
    adv: "advance_all (currentActors s) (prng s) = (Inr actors', seed')"
    by blast
  have not_done: "\<not> path_exhausted (find (\<lambda>a. actor_type a = adversary) actors')"
    using assms adv by (auto simp add: tick_def split: if_splits)
  have actors: "currentActors s' = actors'"
    using assms adv not_done
    by (auto simp add: tick_def split: if_splits prod.splits sum.splits)
  from not_done obtain a' where
    a': "find (\<lambda>a. actor_type a = adversary) actors' = Some a'"
    and ahead: "int (pathIndex a') < int (length (path a')) - 1"
    by (auto simp add: path_exhausted_def split: option.splits)
  from advance_all_adversary [OF adv] a' obtain a where
    a: "find (\<lambda>a. actor_type a = adversary) (currentActors s) = Some a"
    and step: "a' = (if int (length (path a)) - 1 \<le> int (pathIndex a) then a
                     else a\<lparr>pathIndex := pathIndex a + 1,
                            actor_pos := path a ! (pathIndex a + 1)\<rparr>)"
    by (auto split: option.splits)
  have moved: "\<not> int (length (path a)) - 1 \<le> int (pathIndex a)"
    using step ahead by (auto split: if_splits)
  then have a'_eq: "a' = a\<lparr>pathIndex := pathIndex a + 1,
                            actor_pos := path a ! (pathIndex a + 1)\<rparr>"
    using step by simp
  have "pathIndex a + 1 < length (path a) - 1"
    using ahead a'_eq by simp
  then show ?thesis
    using adv actors a a' a'_eq by blast
qed

lemma tick_decreases:
  assumes "tick clk sensors rules s = Inr s'"
  shows "waypoints_left s' < waypoints_left s"
proof -
  from tick_continue [OF assms] obtain actors' a where
    "currentActors s' = actors'"
    "find (\<lambda>a. actor_type a = adversary) (currentActors s) = Some a"
    "find (\<lambda>a. actor_type a = adversary) actors' =
       Some (a\<lparr>pathIndex := pathIndex a + 1, actor_pos := path a ! (pathIndex a + 1)\<rparr>)"
    "pathIndex a + 1 < length (path a) - 1"
    by blast
  then show ?thesis
    by (simp add: waypoints_left_def)
qed

lemma runSimulationPromise_resolves:
  "waypoints_left s < n \<Longrightarrow> \<exists>v. runSimulationPromise clk sensors rules n s = Some v"
proof (induction n arbitrary: s)
  case 0
  then show ?case by simp
next
  case (Suc n)
  show ?case
  proof (cases "tick clk sensors rules s")
    case (Inl v)
    then show ?thesis by simp
  next
    case (Inr s')
    from tick_decreases [OF Inr] Suc.prems have "waypoints_left s' < n"
      by simp
    from Suc.IH [OF this] show ?thesis
      using Inr by simp
  qed
qed

lemma runSimulationPromise_stable:
  "runSimulationPromise clk sensors rules n s = Some v \<Longrightarrow>
   runSimulationPromise clk sensors rules (n + k) s = Some v"
proof (induction n arbitrary: s)
  case 0
  then show ?case by simp
next
  case (Suc n)
  then show ?case
    by (cases "tick clk sensors rules s") simp_all
qed

lemma runSimulationPromise_unique:
  assumes "runSimulationPromise clk sensors rules n s = Some v"
    and "runSimulationPromise clk sensors rules m s = Some v'"
  shows "v = v'"
proof -
  have "runSimulationPromise clk sensors rules (n + m) s = Some v"
    using assms(1) by (rule runSimulationPromise_stable)
  moreover have "runSimulationPromise clk sensors rules (m + n) s = Some v'"
    using assms(2) by (rule runSimulationPromise_stable)
  ultimately show ?thesis
    by (simp add: add.commute)
qed

text \<open>
  Claim C7. Every run of the interval callback either resolves the promise with
  BYPASSED, exactly when the first adversary is missing or at (or past) the last index of
  its path after the advance; or resolves it with DETECTED, exactly when the adversary is
  not there yet and the detection of the tick returns an alert of level critical; or
  leaves the interval running with the adversary one waypoint further, still before the
  last. So the promise is resolved after at most one more run than the adversary has
  waypoints ahead of it, and with one verdict only, whatever the sensors and the rules.
\<close>

theorem verdict_exclusive:
  "(\<exists>v. runSimulationPromise clk sensors rules (Suc (waypoints_left s)) s = Some v) \<and>
   (\<forall>n m v v'. runSimulationPromise clk sensors rules n s = Some v \<and>
               runSimulationPromise clk sensors rules m s = Some v' \<longrightarrow> v = v') \<and>
   (\<exists>actors' seed'.
      advance_all (currentActors s) (prng s) = (Inr actors', seed') \<and>
      (tick clk sensors rules s = Inl BYPASSED \<longleftrightarrow>
         path_exhausted (find (\<lambda>a. actor_type a = adversary) actors')) \<and>
      (tick clk sensors rules s = Inl DETECTED \<longleftrightarrow>
         \<not> path_exhausted (find (\<lambda>a. actor_type a = adversary) actors') \<and>
         (\<exists>res st'. runDetectionLogic clk actors' sensors clear rules (detectionState s)
                       (seed', clock_reads s) = (Inr res, st') \<and>
                    (\<exists>alert \<in> set (newAlerts res). level alert = critical))) \<and>
      (\<forall>s'. tick clk sensors rules s = Inr s' \<longrightarrow>
         currentActors s' = actors' \<and>
         (\<exists>a. find (\<lambda>a. actor_type a = adversary) (currentActors s) = Some a \<and>
              find (\<lambda>a. actor_type a = adversary) actors' =
                Some (a\<lparr>pathIndex := pathIndex a + 1,
                         actor_pos := path a ! (pathIndex a + 1)\<rparr>) \<and>
              pathIndex a + 1 < length (path a) - 1) \<and>
         waypoints_left s' < waypoints_left s))"
proof (intro conjI)
  show "\<exists>v. runSimulationPromise clk sensors rules (Suc (waypoints_left s)) s = Some v"
    by (rule runSimulationPromise_resolves) simp
  show "\<forall>n m v v'. runSimulationPromise clk sensors rules n s = Some v \<and>
               runSimulationPromise clk sensors rules m s = Some v' \<longrightarrow> v = v'"
    using runSimulationPromise_unique by blast
  from advance_all_total [of "currentActors s" "prng s"] obtain actors' seed' where
    adv: "advance_all (currentActors s) (prng s) = (Inr actors', seed')"
    by blast
  have bypassed: "tick clk sensors rules s = Inl BYPASSED \<longleftrightarrow>
      path_exhausted (find (\<lambda>a. actor_type a = adversary) actors')"
    using adv by (auto simp add: tick_def split: prod.splits sum.splits)
  have detected: "tick clk sensors rules s = Inl DETECTED \<longleftrightarrow>
      \<not> path_exhausted (find (\<lambda>a. actor_type a = adversary) actors') \<and>
      (\<exists>res st'. runDetectionLogic clk actors' sensors clear rules (detectionState s)
                    (seed', clock_reads s) = (Inr res, st') \<and>
                 (\<exists>alert \<in> set (newAlerts res). level alert = critical))"
    using adv
    by (auto simp add: tick_def list_ex_iff split: prod.splits sum.splits)
  have continue: "currentActors s' = actors' \<and>
         (\<exists>a. find (\<lambda>a. actor_type a = adversary) (currentActors s) = Some a \<and>
              find (\<lambda>a. actor_type a = adversary) actors' =
                Some (a\<lparr>pathIndex := pathIndex a + 1,
                         actor_pos := path a ! (pathIndex a + 1)\<rparr>) \<and>
              pathIndex a + 1 < length (path a) - 1) \<and>
         waypoints_left s' < waypoints_left s"
    if "tick clk sensors rules s = Inr s'" for s'
    using tick_continue [OF that] tick_decreases [OF that] adv by auto
  show "\<exists>actors' seed'.
      advance_all (currentActors s) (prng s) = (Inr actors', seed') \<and>
      (tick clk sensors rules s = Inl BYPASSED \<longleftrightarrow>
         path_exhausted (find (\<lambda>a. actor_type a = adversary) actors')) \<and>
      (tick clk sensors rules s = Inl DETECTED \<longleftrightarrow>
         \<not> path_exhausted (find (\<lambda>a. actor_type a = adversary) actors') \<and>
         (\<exists>res st'. runDetectionLogic clk actors' sensors clear rules (detectionState s)
                       (seed', clock_reads s) = (Inr res, st') \<and>
                    (\<exists>alert \<in> set (newAlerts res). level alert = critical))) \<and>
      (\<forall>s'. tick clk sensors rules s = Inr s' \<longrightarrow>
         currentActors s' = actors' \<and>
         (\<exists>a. find (\<lambda>a. actor_type a = adversary) (currentActors s) = Some a \<and>
              find (\<lambda>a. actor_type a = adversary) actors' =
                Some (a\<lparr>pathIndex := pathIndex a + 1,
                         actor_pos := path a ! (pathIndex a + 1)\<rparr>) \<and>
              pathIndex a + 1 < length (path a) - 1) \<and>
         waypoints_left s' < waypoints_left s)"
    using adv bypassed detected continue by blast
qed

lemma PRNG_next_1: "PRNG_next 1 = (2693262067 / 4294967296, 1831565814)"
  by (simp add: PRNG_next_def Let_def)

lemma PRNG_next_1831565814: "PRNG_next 1831565814 = (11749833 / 4294967296, 3663131627)"
  by (simp add: PRNG_next_def Let_def)

lemma PRNG_next_3663131627: "PRNG_next 3663131627 = (2265367787 / 4294967296, 5494697440)"
  by (simp add: PRNG_next_def Let_def)

theorem verdict_exclusive_witness:
  "waypoints_left
     \<lparr>currentActors =
        [make_adversary [(34.021, 75.320), (34.026, 75.318), (34.026, 75.318),
                         (34.026, 75.318), (34.029, 75.310)] gps_off],
      detectionState = Map.empty, prng = 1, clock_reads = 0\<rparr> = 4 \<and>
   runSimulationPromise (\<lambda>k. 1000) [SCENARIO_1_SENSORS ! 0] SCENARIO_1_RULES 5
     \<lparr>currentActors =
        [make_adversary [(34.021, 75.320), (34.026, 75.318), (34.026, 75.318),
                         (34.026, 75.318), (34.029, 75.310)] gps_off],
      detectionState = Map.empty, prng = 1, clock_reads = 0\<rparr> = Some DETECTED \<and>
   runSimulationPromise (\<lambda>k. 1000) [SCENARIO_1_SENSORS ! 0] SCENARIO_1_RULES 2
     \<lparr>currentActors = [make_adversary [] gps_off], detectionState = Map.empty, prng = 42,
      clock_reads = 0\<rparr> = Some BYPASSED"
  using verdict_exclusive [of "\<lambda>k. 1000" "[SCENARIO_1_SENSORS ! 0]" SCENARIO_1_RULES
      "\<lparr>currentActors =
         [make_adversary [(34.021, 75.320), (34.026, 75.318), (34.026, 75.318),
                          (34.026, 75.318), (34.029, 75.310)] gps_off],
       detectionState = Map.empty, prng = 1, clock_reads = 0\<rparr>"]
  by (simp add: tick_def advance_actor_def make_adversary_def scenario_path_def
      path_exhausted_def waypoints_left_def engine_defs SCENARIO_1_SENSORS_def
      SCENARIO_1_RULES_def getDistance_same PRNG_next_1 PRNG_next_1831565814
      PRNG_next_3663131627 show_int_1000 eval_nat_numeral)

end
